theory Spec2Isabelle
  imports Complex_Main "HOL-Library.Log_Nat"
begin

section \<open>Python values and helpers\<close>

text \<open>
  The source is \<^verbatim>\<open>src/metaverse_builder.py\<close>. Values that flow through the untyped
  keyword bag \<^verbatim>\<open>**props\<close> are dynamically typed; they are modelled by \<open>pyval\<close>, the
  JSON-representable Python values. Python's \<^verbatim>\<open>int\<close> and \<^verbatim>\<open>float\<close> are one constructor
  \<open>PNum\<close> over the reals (Python has \<^verbatim>\<open>256 == 256.0\<close>, and a \<^verbatim>\<open>REAL\<close> column
  stores both as a float). A float is the real number it denotes; the rounding of
  floating-point arithmetic is modelled where the source computes with floats, which is
  in \<^verbatim>\<open>size / 256\<close> (see \<open>int_truediv_256\<close>) and in \<^verbatim>\<open>now * 1000\<close> (see \<open>float_mul\<close>).
  A \<^verbatim>\<open>dict\<close> is an association list in insertion order; Python dicts have distinct
  keys.
\<close>

datatype pyval =
    PNone
  | PBool bool
  | PNum real
  | PStr string
  | PList "pyval list"
  | PDict "(string \<times> pyval) list"

type_synonym pydict = "(string \<times> pyval) list"

text \<open>\<^verbatim>\<open>d.get(k, default)\<close>\<close>

definition dict_get :: "(string \<times> 'v) list \<Rightarrow> string \<Rightarrow> 'v \<Rightarrow> 'v" where
  "dict_get d k dflt = (case map_of d k of None \<Rightarrow> dflt | Some v \<Rightarrow> v)"

text \<open>\<^verbatim>\<open>sep.join(xs)\<close>\<close>

fun join :: "string \<Rightarrow> string list \<Rightarrow> string" where
  "join sep [] = []"
| "join sep [x] = x"
| "join sep (x # y # ys) = x @ sep @ join sep (y # ys)"

text \<open>\<^verbatim>\<open>str(n)\<close> for an integer: decimal digits, a minus sign for negatives.\<close>

definition digit_char :: "nat \<Rightarrow> char" where
  "digit_char d = ''0123456789'' ! d"

function str_nat :: "nat \<Rightarrow> string" where
  "str_nat n = (if n < 10 then [digit_char n] else str_nat (n div 10) @ [digit_char (n mod 10)])"
  by pat_completeness auto
termination
  by (relation "measure (\<lambda>n. n)") auto

declare str_nat.simps [simp del]

definition str_int :: "int \<Rightarrow> string" where
  "str_int i = (if i < 0 then CHR ''-'' # str_nat (nat (- i)) else str_nat (nat i))"

text \<open>\<^verbatim>\<open>int(r)\<close> for a float: truncation towards zero.\<close>

definition py_int :: "real \<Rightarrow> int" where
  "py_int r = (if r < 0 then \<lceil>r\<rceil> else \<lfloor>r\<rfloor>)"

text \<open>
  \<^verbatim>\<open>n / 256\<close> for an integer \<open>n\<close>: CPython returns the double nearest to the quotient
  (ties to even). Since 256 is a power of two that is the double nearest to \<open>n\<close>,
  divided exactly by 256. \<open>round_to_double\<close> rounds an integer to a 53-bit significand;
  it is the identity below \<open>2^53\<close>. A stored size fits 64 bits, far from the range
  where the division overflows.
\<close>

definition round_to_double :: "int \<Rightarrow> int" where
  "round_to_double n =
     (let a = \<bar>n\<bar> in
      if a < 2 ^ 53 then n
      else let e = nat (bitlen a) - 53;
               q = a div 2 ^ e;
               r = a mod 2 ^ e;
               h = 2 ^ (e - 1);
               q' = (if h < r \<or> (r = h \<and> odd q) then q + 1 else q)
           in sgn n * (q' * 2 ^ e))"

definition int_truediv_256 :: "int \<Rightarrow> real" where
  "int_truediv_256 n = real_of_int (round_to_double n) / 256"

text \<open>
  \<^verbatim>\<open>x * y\<close> for two floats: the double nearest to the exact product, ties to even.
  For \<open>x \<noteq> 0\<close>, \<open>float_exponent x\<close> is the \<open>e\<close> with \<open>2^e \<le> \<bar>x\<bar> < 2^(e+1)\<close>; the doubles
  of that binade are the multiples of \<open>2^(e-52)\<close>, and \<open>float_round\<close> takes the nearest
  one. Subnormal results and overflow are not modelled: the products of the source
  are timestamps in milliseconds.
\<close>

definition pow2 :: "int \<Rightarrow> real" where
  "pow2 k = (if 0 \<le> k then 2 ^ nat k else 1 / 2 ^ nat (- k))"

definition float_exponent :: "real \<Rightarrow> int" where
  "float_exponent x =
     (if 1 \<le> \<bar>x\<bar> then bitlen \<lfloor>\<bar>x\<bar>\<rfloor> - 1 else - bitlen (\<lceil>1 / \<bar>x\<bar>\<rceil> - 1))"

definition round_half_even :: "real \<Rightarrow> int" where
  "round_half_even q =
     (let f = \<lfloor>q\<rfloor>;
          r = q - real_of_int f
      in if r < 1 / 2 \<or> (r = 1 / 2 \<and> even f) then f else f + 1)"

definition float_round :: "real \<Rightarrow> real" where
  "float_round x =
     (if x = 0 then 0
      else let u = pow2 (float_exponent x - 52)
           in real_of_int (round_half_even (x / u)) * u)"

definition float_mul :: "real \<Rightarrow> real \<Rightarrow> real" where
  "float_mul x y = float_round (x * y)"

section \<open>Constants of the module\<close>

definition THEMES :: "string list" where
  "THEMES = [''cyberpunk'', ''fantasy'', ''space'', ''underwater'', ''desert'', ''arctic'',
             ''jungle'', ''neon'']"

definition OBJECT_TYPES :: "string list" where
  "OBJECT_TYPES = [''building'', ''tree'', ''light'', ''terrain'', ''water'', ''vehicle'',
                   ''npc'', ''portal'', ''artifact'']"

definition THEME_COLORS :: "(string \<times> string) list" where
  "THEME_COLORS =
     [(''cyberpunk'', ''#FF00FF''),
      (''fantasy'', ''#8B4513''),
      (''space'', ''#000080''),
      (''underwater'', ''#0000CD''),
      (''desert'', ''#F4A460''),
      (''arctic'', ''#F0F8FF''),
      (''jungle'', ''#228B22''),
      (''neon'', ''#FFFF00'')]"

section \<open>Errors\<close>

text \<open>
  Every exception the modelled code can raise. \<open>ValueError\<close> carries its message: the
  source raises it both for an argument outside an enum (the spec's InvalidArgument) and
  for an unknown world id (the spec's NotFound). \<open>IntegrityError\<close> is
  \<^verbatim>\<open>sqlite3.IntegrityError\<close> (a primary key already present), \<open>OverflowError\<close> and
  \<open>BindingError\<close> are raised by \<^verbatim>\<open>sqlite3\<close> when a parameter cannot be bound (an integer
  outside 64 bits, a list or dict), \<open>TypeError\<close> by \<^verbatim>\<open>datetime.fromtimestamp\<close> on a
  value that is not a number.
\<close>

datatype error =
    ValueError string
  | IntegrityError
  | OverflowError
  | BindingError
  | TypeError

definition invalid_theme_msg :: string where
  "invalid_theme_msg = ''Invalid theme. Choose from: '' @ join '', '' THEMES"

definition invalid_type_msg :: string where
  "invalid_type_msg = ''Invalid type. Choose from: '' @ join '', '' OBJECT_TYPES"

definition not_found_msg :: "string \<Rightarrow> string" where
  "not_found_msg world_id = ''World '' @ world_id @ '' not found''"

section \<open>The dataclasses\<close>

text \<open>
  \<^verbatim>\<open>WorldObject\<close> and \<^verbatim>\<open>MetaverseWorld\<close>. Fields are prefixed (\<open>x\<close>, \<open>id\<close> and \<open>type\<close>
  cannot be constants). The positional parameters of \<^verbatim>\<open>add_object\<close> are typed by their
  annotations; \<open>scale\<close>, \<open>rotation\<close> and \<open>color\<close> come out of the untyped bag and stay
  dynamically typed. \<open>mw_created_at\<close> is dynamically typed because \<^verbatim>\<open>get_world\<close> does
  not put a number there (see \<open>get_world\<close>).
\<close>

record WorldObject =
  obj_id :: string
  obj_type :: string
  obj_name :: string
  obj_x :: real
  obj_y :: real
  obj_z :: real
  obj_scale :: pyval
  obj_rotation :: pyval
  obj_color :: pyval
  obj_properties :: pydict

record MetaverseWorld =
  mw_id :: string
  mw_name :: string
  mw_theme :: string
  mw_seed :: int
  mw_size :: int
  mw_objects :: "WorldObject list"
  mw_created_at :: pyval
  mw_description :: string

section \<open>The database, the clock and the random module\<close>

text \<open>
  The three tables of \<^verbatim>\<open>_init_db\<close>, one record per row, columns in schema order.
  The \<^verbatim>\<open>properties\<close> column holds the JSON text of a mapping; \<open>or_properties\<close> is
  the mapping that text denotes, since \<^verbatim>\<open>json.loads(json.dumps(d))\<close> is \<open>d\<close> for the
  values of \<open>pyval\<close>. The foreign key of \<^verbatim>\<open>world_objects\<close> is declared and not
  enforced (SQLite enforces foreign keys only under a pragma the source does not set).
\<close>

record world_row =
  wr_id :: string
  wr_name :: string
  wr_theme :: string
  wr_seed :: int
  wr_size :: int
  wr_created_at :: real
  wr_description :: string

record object_row =
  or_id :: string
  or_world_id :: string
  or_type :: string
  or_name :: string
  or_x :: real
  or_y :: real
  or_z :: real
  or_scale :: pyval
  or_rotation :: pyval
  or_color :: pyval
  or_properties :: pydict

record position_row =
  pp_player_id :: string
  pp_world_id :: string
  pp_x :: real
  pp_y :: real
  pp_z :: real
  pp_teleported_at :: real

text \<open>
  Library functions the source calls and the repository does not define, taken as
  parameters: the \<^verbatim>\<open>random\<close> module over a generator state \<open>'g\<close>
  (\<^verbatim>\<open>random.seed(n)\<close> installs a state that depends on \<open>n\<close> only),
  \<^verbatim>\<open>datetime.fromtimestamp(t).isoformat()\<close> (which raises on a timestamp outside the
  platform's range), and SQLite's conversions between text and numbers under column
  affinity.
\<close>

record 'g library =
  random_seed :: "int \<Rightarrow> 'g"
  random_randint :: "int \<Rightarrow> int \<Rightarrow> 'g \<Rightarrow> int \<times> 'g"
  random_uniform :: "real \<Rightarrow> real \<Rightarrow> 'g \<Rightarrow> real \<times> 'g"
  isoformat :: "real \<Rightarrow> error + string"
  sqlite_text_to_num :: "string \<Rightarrow> real option"
  sqlite_num_to_text :: "real \<Rightarrow> string"

text \<open>
  The state the methods of \<^verbatim>\<open>MetaverseBuilder\<close> work on: the tables behind
  \<^verbatim>\<open>self.conn\<close> (rows in insertion order, which is the order a \<^verbatim>\<open>SELECT\<close> without
  \<^verbatim>\<open>ORDER BY\<close> scans them in), the state of the global \<^verbatim>\<open>random\<close> module, and the
  wall clock: \<open>clock s k\<close> is the float the \<open>k\<close>-th call of
  \<^verbatim>\<open>datetime.now().timestamp()\<close> returns (the seconds since the epoch of a date
  between the years 1 and 9999), \<open>reads s\<close> counts the calls made so far.
  Every statement is committed by its method, and one connection sees its own writes,
  so commits are not modelled.
\<close>

record 'g builder =
  worlds :: "world_row list"
  world_objects :: "object_row list"
  player_positions :: "position_row list"
  rng :: 'g
  clock :: "nat \<Rightarrow> real"
  reads :: nat

type_synonym ('g, 'a) action = "'g builder \<Rightarrow> (error + 'a) \<times> 'g builder"

text \<open>\<^verbatim>\<open>datetime.now().timestamp()\<close>\<close>

definition now :: "'g builder \<Rightarrow> real \<times> 'g builder" where
  "now s = (clock s (reads s), s\<lparr>reads := Suc (reads s)\<rparr>)"

text \<open>
  \<^verbatim>\<open>int(now * 1000)\<close>: the float product, truncated. Then
  \<^verbatim>\<open>f"world_{int(now * 1000)}"\<close> and \<^verbatim>\<open>f"obj_{int(now * 1000)}"\<close>.
\<close>

definition millis :: "real \<Rightarrow> int" where
  "millis t = py_int (float_mul t 1000)"

definition world_id_of :: "real \<Rightarrow> string" where
  "world_id_of t = ''world_'' @ str_int (millis t)"

definition obj_id_of :: "real \<Rightarrow> string" where
  "obj_id_of t = ''obj_'' @ str_int (millis t)"

subsection \<open>SQL statements\<close>

text \<open>
  Binding a Python value to a column. A \<^verbatim>\<open>REAL\<close> column keeps numbers, turns
  \<^verbatim>\<open>True\<close>/\<^verbatim>\<open>False\<close> into 1/0, converts text that reads as a number and keeps other
  text; a \<^verbatim>\<open>TEXT\<close> column keeps text and stores a number as its text. \<^verbatim>\<open>None\<close> is
  \<^verbatim>\<open>NULL\<close> in both. A list or a dict cannot be bound. An \<^verbatim>\<open>INTEGER\<close> parameter must
  fit 64 bits.
\<close>

fun real_affinity :: "'g library \<Rightarrow> pyval \<Rightarrow> error + pyval" where
  "real_affinity L PNone = Inr PNone"
| "real_affinity L (PBool b) = Inr (PNum (if b then 1 else 0))"
| "real_affinity L (PNum r) = Inr (PNum r)"
| "real_affinity L (PStr t) =
     Inr (case sqlite_text_to_num L t of None \<Rightarrow> PStr t | Some r \<Rightarrow> PNum r)"
| "real_affinity L (PList _) = Inl BindingError"
| "real_affinity L (PDict _) = Inl BindingError"

fun text_affinity :: "'g library \<Rightarrow> pyval \<Rightarrow> error + pyval" where
  "text_affinity L PNone = Inr PNone"
| "text_affinity L (PBool b) = Inr (PStr (if b then ''1'' else ''0''))"
| "text_affinity L (PNum r) = Inr (PStr (sqlite_num_to_text L r))"
| "text_affinity L (PStr t) = Inr (PStr t)"
| "text_affinity L (PList _) = Inl BindingError"
| "text_affinity L (PDict _) = Inl BindingError"

definition fits_int64 :: "int \<Rightarrow> bool" where
  "fits_int64 n \<longleftrightarrow> - (2 ^ 63) \<le> n \<and> n < 2 ^ 63"

text \<open>\<^verbatim>\<open>INSERT INTO worlds\<close>: \<open>id\<close> is the primary key.\<close>

definition insert_world :: "world_row \<Rightarrow> world_row list \<Rightarrow> error + world_row list" where
  "insert_world r tbl =
     (if \<not> (fits_int64 (wr_seed r) \<and> fits_int64 (wr_size r)) then Inl OverflowError
      else if wr_id r \<in> set (map wr_id tbl) then Inl IntegrityError
      else Inr (tbl @ [r]))"

text \<open>\<^verbatim>\<open>INSERT INTO world_objects\<close>: \<open>id\<close> is the primary key of the whole table.\<close>

definition insert_object :: "object_row \<Rightarrow> object_row list \<Rightarrow> error + object_row list" where
  "insert_object r tbl =
     (if or_id r \<in> set (map or_id tbl) then Inl IntegrityError else Inr (tbl @ [r]))"

text \<open>
  \<^verbatim>\<open>INSERT INTO player_positions\<close> (primary key \<open>(player_id, world_id)\<close>) and the
  \<^verbatim>\<open>UPDATE ... WHERE player_id = ? AND world_id = ?\<close> of \<^verbatim>\<open>teleport\<close>.
\<close>

definition position_key :: "position_row \<Rightarrow> string \<times> string" where
  "position_key r = (pp_player_id r, pp_world_id r)"

definition insert_position :: "position_row \<Rightarrow> position_row list \<Rightarrow> error + position_row list" where
  "insert_position r tbl =
     (if position_key r \<in> set (map position_key tbl) then Inl IntegrityError
      else Inr (tbl @ [r]))"

definition update_position ::
  "string \<Rightarrow> string \<Rightarrow> real \<Rightarrow> real \<Rightarrow> real \<Rightarrow> real \<Rightarrow> position_row list \<Rightarrow> position_row list" where
  "update_position player_id world_id x y z t tbl =
     map (\<lambda>r. if pp_player_id r = player_id \<and> pp_world_id r = world_id
              then r\<lparr>pp_x := x, pp_y := y, pp_z := z, pp_teleported_at := t\<rparr>
              else r) tbl"

section \<open>MetaverseBuilder\<close>

subsection \<open>get_world\<close>

text \<open>
  \<^verbatim>\<open>SELECT * FROM worlds WHERE id = ?\<close> returns the columns in schema order
  \<open>(id, name, theme, seed, size, created_at, description)\<close>, and
  \<^verbatim>\<open>MetaverseWorld(*row)\<close> passes them positionally to the dataclass, whose fields are
  \<open>(id, name, theme, seed, size, objects, created_at, description)\<close>: the row's
  \<open>created_at\<close> lands in \<open>objects\<close> (overwritten two lines later by the loaded objects),
  the row's \<open>description\<close> lands in \<open>created_at\<close>, and \<open>description\<close> keeps its default.
\<close>

definition row_to_object :: "object_row \<Rightarrow> WorldObject" where
  "row_to_object r =
     \<lparr>obj_id = or_id r, obj_type = or_type r, obj_name = or_name r,
      obj_x = or_x r, obj_y = or_y r, obj_z = or_z r,
      obj_scale = or_scale r, obj_rotation = or_rotation r, obj_color = or_color r,
      obj_properties = or_properties r\<rparr>"

definition get_world :: "'g builder \<Rightarrow> string \<Rightarrow> MetaverseWorld option" where
  "get_world s world_id =
     (case find (\<lambda>r. wr_id r = world_id) (worlds s) of
        None \<Rightarrow> None
      | Some row \<Rightarrow>
          Some \<lparr>mw_id = wr_id row, mw_name = wr_name row, mw_theme = wr_theme row,
                mw_seed = wr_seed row, mw_size = wr_size row,
                mw_objects = map row_to_object
                               (filter (\<lambda>r. or_world_id r = world_id) (world_objects s)),
                mw_created_at = PStr (wr_description row),
                mw_description = ''''\<rparr>)"

subsection \<open>create_world\<close>

definition create_world ::
  "'g library \<Rightarrow> 'g builder \<Rightarrow> string \<Rightarrow> string \<Rightarrow> int option \<Rightarrow> int
     \<Rightarrow> (error + MetaverseWorld) \<times> 'g builder" where
  "create_world L s name theme seed wsize =
     (if theme \<notin> set THEMES then (Inl (ValueError invalid_theme_msg), s)
      else
        let (seed', s1) =
              (case seed of
                 None \<Rightarrow> (let (n, g) = random_randint L 1 1000000 (rng s) in (n, s\<lparr>rng := g\<rparr>))
               | Some n \<Rightarrow> (n, s));
            (t, s2) = now s1;
            world_id = world_id_of t
        in case insert_world
                  \<lparr>wr_id = world_id, wr_name = name, wr_theme = theme, wr_seed = seed',
                   wr_size = wsize, wr_created_at = t,
                   wr_description = ''A '' @ theme @ '' metaverse world''\<rparr> (worlds s2) of
             Inl e \<Rightarrow> (Inl e, s2)
           | Inr tbl \<Rightarrow>
               (Inr \<lparr>mw_id = world_id, mw_name = name, mw_theme = theme, mw_seed = seed',
                     mw_size = wsize, mw_objects = [], mw_created_at = PNum t,
                     mw_description = ''''\<rparr>,
                s2\<lparr>worlds := tbl\<rparr>))"

subsection \<open>add_object\<close>

definition add_object ::
  "'g library \<Rightarrow> 'g builder \<Rightarrow> string \<Rightarrow> string \<Rightarrow> string \<Rightarrow> real \<Rightarrow> real \<Rightarrow> real \<Rightarrow> pydict
     \<Rightarrow> (error + WorldObject) \<times> 'g builder" where
  "add_object L s world_id otype name x y z props =
     (if otype \<notin> set OBJECT_TYPES then (Inl (ValueError invalid_type_msg), s)
      else case get_world s world_id of
        None \<Rightarrow> (Inl (ValueError (not_found_msg world_id)), s)
      | Some world \<Rightarrow>
          let (t, s1) = now s;
              oid = obj_id_of t;
              scale = dict_get props ''scale'' (PNum 1);
              rotation = dict_get props ''rotation'' (PNum 0);
              color = dict_get props ''color''
                        (PStr (dict_get THEME_COLORS (mw_theme world) ''#FFFFFF''));
              properties = filter (\<lambda>(k, v). k \<notin> set [''scale'', ''rotation'', ''color'']) props
          in (case (real_affinity L scale, real_affinity L rotation, text_affinity L color) of
               (Inr sc, Inr ro, Inr co) \<Rightarrow>
                 (case insert_object
                         \<lparr>or_id = oid, or_world_id = world_id, or_type = otype, or_name = name,
                          or_x = x, or_y = y, or_z = z, or_scale = sc, or_rotation = ro,
                          or_color = co, or_properties = properties\<rparr> (world_objects s1) of
                    Inl e \<Rightarrow> (Inl e, s1)
                  | Inr tbl \<Rightarrow>
                      (Inr \<lparr>obj_id = oid, obj_type = otype, obj_name = name,
                            obj_x = x, obj_y = y, obj_z = z, obj_scale = scale,
                            obj_rotation = rotation, obj_color = color,
                            obj_properties = properties\<rparr>,
                       s1\<lparr>world_objects := tbl\<rparr>))
             | _ \<Rightarrow> (Inl BindingError, s1)))"

subsection \<open>Control flow\<close>

text \<open>
  An exception leaves the loop or the sequence it is raised in and keeps the state
  reached so far: every \<^verbatim>\<open>add_object\<close> has committed its row.
\<close>

definition discard :: "(error + 'a) \<times> 's \<Rightarrow> (error + unit) \<times> 's" where
  "discard r = (case r of (Inl e, s) \<Rightarrow> (Inl e, s) | (Inr v, s) \<Rightarrow> (Inr (), s))"

fun for_each :: "('i \<Rightarrow> ('g, unit) action) \<Rightarrow> 'i list \<Rightarrow> ('g, unit) action" where
  "for_each body [] s = (Inr (), s)"
| "for_each body (i # rest) s =
     (case body i s of (Inl e, s') \<Rightarrow> (Inl e, s') | (Inr u, s') \<Rightarrow> for_each body rest s')"

definition and_then :: "('g, unit) action \<Rightarrow> ('g, 'a) action \<Rightarrow> ('g, 'a) action" where
  "and_then a b s = (case a s of (Inl e, s') \<Rightarrow> (Inl e, s') | (Inr u, s') \<Rightarrow> b s')"

definition skip :: "('g, unit) action" where
  "skip s = (Inr (), s)"

text \<open>\<^verbatim>\<open>range(0, n)\<close> and \<^verbatim>\<open>range(n)\<close>: empty when \<open>n \<le> 0\<close>.\<close>

definition py_range :: "int \<Rightarrow> nat list" where
  "py_range n = [0..<nat n]"

subsection \<open>generate_terrain\<close>

definition get_terrain_color :: "string \<Rightarrow> string" where
  "get_terrain_color theme =
     dict_get
       [(''cyberpunk'', ''#1a1a2e''),
        (''fantasy'', ''#8B7355''),
        (''space'', ''#1a1a3a''),
        (''underwater'', ''#006994''),
        (''desert'', ''#C2B280''),
        (''arctic'', ''#FFFAFA''),
        (''jungle'', ''#355C3D''),
        (''neon'', ''#00FF00'')] theme ''#808080''"

text \<open>The body of the inner loop, for cell \<open>(i, j)\<close>.\<close>

definition terrain_cell ::
  "'g library \<Rightarrow> string \<Rightarrow> MetaverseWorld \<Rightarrow> nat \<Rightarrow> nat \<Rightarrow> ('g, unit) action" where
  "terrain_cell L world_id world i j s =
     (let x = real (i * 256);
          z = real (j * 256);
          (height, g) = random_randint L (- 10) 50 (rng s)
      in discard (add_object L (s\<lparr>rng := g\<rparr>) world_id ''terrain''
                    (''terrain_'' @ str_nat i @ ''_'' @ str_nat j) x (real_of_int height) z
                    [(''scale'', PNum 256),
                     (''color'', PStr (get_terrain_color (mw_theme world)))]))"

definition generate_terrain :: "'g library \<Rightarrow> 'g builder \<Rightarrow> string \<Rightarrow> (error + unit) \<times> 'g builder" where
  "generate_terrain L s world_id =
     (case get_world s world_id of
        None \<Rightarrow> (Inl (ValueError (not_found_msg world_id)), s)
      | Some world \<Rightarrow>
          let s1 = s\<lparr>rng := random_seed L (mw_seed world)\<rparr>;
              grid_size = py_int (int_truediv_256 (mw_size world))
          in for_each
               (\<lambda>i. for_each (\<lambda>j. terrain_cell L world_id world i j) (py_range grid_size))
               (py_range grid_size) s1)"

subsection \<open>populate_world\<close>

text \<open>The bodies of the three loops and the theme's special object.\<close>

definition place_building ::
  "'g library \<Rightarrow> string \<Rightarrow> MetaverseWorld \<Rightarrow> nat \<Rightarrow> ('g, unit) action" where
  "place_building L world_id world i s =
     (let (x, g1) = random_uniform L 0 (real_of_int (mw_size world)) (rng s);
          (z, g2) = random_uniform L 0 (real_of_int (mw_size world)) g1
      in discard (add_object L (s\<lparr>rng := g2\<rparr>) world_id ''building''
                    (mw_theme world @ ''_building_'' @ str_nat i) x 20 z
                    [(''scale'', PNum 20)]))"

definition place_tree ::
  "'g library \<Rightarrow> string \<Rightarrow> MetaverseWorld \<Rightarrow> nat \<Rightarrow> ('g, unit) action" where
  "place_tree L world_id world i s =
     (let (x, g1) = random_uniform L 0 (real_of_int (mw_size world)) (rng s);
          (z, g2) = random_uniform L 0 (real_of_int (mw_size world)) g1
      in discard (add_object L (s\<lparr>rng := g2\<rparr>) world_id ''tree''
                    (''tree_'' @ str_nat i) x 5 z
                    [(''scale'', PNum 5)]))"

definition place_light ::
  "'g library \<Rightarrow> string \<Rightarrow> MetaverseWorld \<Rightarrow> nat \<Rightarrow> ('g, unit) action" where
  "place_light L world_id world i s =
     (let (x, g1) = random_uniform L 0 (real_of_int (mw_size world)) (rng s);
          (z, g2) = random_uniform L 0 (real_of_int (mw_size world)) g1
      in discard (add_object L (s\<lparr>rng := g2\<rparr>) world_id ''light''
                    (''light_'' @ str_nat i) x 100 z
                    [(''scale'', PNum 2), (''color'', PStr ''#FFFF00'')]))"

definition place_special :: "'g library \<Rightarrow> string \<Rightarrow> MetaverseWorld \<Rightarrow> ('g, unit) action" where
  "place_special L world_id world s =
     (if mw_theme world = ''cyberpunk'' then
        discard (add_object L s world_id ''npc'' ''neon_runner'' 500 50 500
                   [(''scale'', PNum 2), (''color'', PStr ''#FF00FF'')])
      else if mw_theme world = ''fantasy'' then
        discard (add_object L s world_id ''artifact'' ''ancient_stone'' 512 20 512
                   [(''scale'', PNum 10), (''color'', PStr ''#808080'')])
      else if mw_theme world = ''space'' then
        discard (add_object L s world_id ''portal'' ''stargate'' 512 100 512
                   [(''scale'', PNum 50), (''color'', PStr ''#00FFFF'')])
      else (Inr (), s))"

definition populate_world :: "'g library \<Rightarrow> 'g builder \<Rightarrow> string \<Rightarrow> (error + unit) \<times> 'g builder" where
  "populate_world L s world_id =
     (case get_world s world_id of
        None \<Rightarrow> (Inl (ValueError (not_found_msg world_id)), s)
      | Some world \<Rightarrow>
          and_then (for_each (place_building L world_id world) (py_range 8))
         (and_then (if mw_theme world \<notin> set [''space'', ''underwater'']
                    then for_each (place_tree L world_id world) (py_range 15)
                    else skip)
         (and_then (for_each (place_light L world_id world) (py_range 4))
                   (place_special L world_id world)))
            (s\<lparr>rng := random_seed L (mw_seed world)\<rparr>))"

subsection \<open>export_json and export_gltf_stub\<close>

text \<open>
  Both return a \<^verbatim>\<open>dict\<close>. \<^verbatim>\<open>datetime.fromtimestamp\<close> takes a number (\<^verbatim>\<open>True\<close> and
  \<^verbatim>\<open>False\<close> are the integers 1 and 0) and raises \<^verbatim>\<open>TypeError\<close> on anything else.
\<close>

definition object_descriptor :: "WorldObject \<Rightarrow> pyval" where
  "object_descriptor obj =
     PDict [(''id'', PStr (obj_id obj)),
            (''type'', PStr (obj_type obj)),
            (''name'', PStr (obj_name obj)),
            (''position'', PDict [(''x'', PNum (obj_x obj)), (''y'', PNum (obj_y obj)),
                                  (''z'', PNum (obj_z obj))]),
            (''scale'', obj_scale obj),
            (''rotation'', obj_rotation obj),
            (''color'', obj_color obj),
            (''properties'', PDict (obj_properties obj))]"

fun fromtimestamp_isoformat :: "'g library \<Rightarrow> pyval \<Rightarrow> error + string" where
  "fromtimestamp_isoformat L (PNum t) = isoformat L t"
| "fromtimestamp_isoformat L (PBool b) = isoformat L (if b then 1 else 0)"
| "fromtimestamp_isoformat L v = Inl TypeError"

definition export_json :: "'g library \<Rightarrow> 'g builder \<Rightarrow> string \<Rightarrow> error + pyval" where
  "export_json L s world_id =
     (case get_world s world_id of
        None \<Rightarrow> Inl (ValueError (not_found_msg world_id))
      | Some world \<Rightarrow>
          let objects_data = map object_descriptor (mw_objects world)
          in (case fromtimestamp_isoformat L (mw_created_at world) of
                Inl e \<Rightarrow> Inl e
              | Inr created \<Rightarrow>
                  Inr (PDict [(''id'', PStr (mw_id world)),
                              (''name'', PStr (mw_name world)),
                              (''theme'', PStr (mw_theme world)),
                              (''seed'', PNum (real_of_int (mw_seed world))),
                              (''size'', PNum (real_of_int (mw_size world))),
                              (''objects'', PList objects_data),
                              (''created_at'', PStr created)])))"

definition gltf_node :: "WorldObject \<Rightarrow> pyval" where
  "gltf_node obj =
     PDict [(''name'', PStr (obj_name obj)),
            (''translation'', PList [PNum (obj_x obj), PNum (obj_y obj), PNum (obj_z obj)]),
            (''scale'', PList [obj_scale obj, obj_scale obj, obj_scale obj])]"

definition gltf_mesh :: pyval where
  "gltf_mesh = PDict [(''primitives'', PList [PDict [(''attributes'', PDict [])]])]"

definition export_gltf_stub :: "'g builder \<Rightarrow> string \<Rightarrow> error + pyval" where
  "export_gltf_stub s world_id =
     (case get_world s world_id of
        None \<Rightarrow> Inl (ValueError (not_found_msg world_id))
      | Some world \<Rightarrow>
          Inr (PDict
            [(''asset'', PDict [(''version'', PStr ''2.0''),
                                (''generator'', PStr ''MetaverseBuilder'')]),
             (''scene'', PNum 0),
             (''scenes'', PList [PDict
                [(''name'', PStr (mw_name world)),
                 (''nodes'', PList (map (\<lambda>k. PNum (real k))
                                       [0..<length (mw_objects world)]))]]),
             (''nodes'', PList (map gltf_node (mw_objects world))),
             (''meshes'', PList (map (\<lambda>obj. gltf_mesh) (mw_objects world)))]))"

subsection \<open>teleport\<close>

text \<open>
  The coordinates are finite floats, as annotated; a \<^verbatim>\<open>REAL\<close> column stores such a
  number as it is. The \<^verbatim>\<open>try\<close> catches
  \<^verbatim>\<open>sqlite3.IntegrityError\<close> only, and the handler runs the \<^verbatim>\<open>UPDATE\<close> with the time
  read before the \<^verbatim>\<open>INSERT\<close>.
\<close>

definition teleport ::
  "'g builder \<Rightarrow> string \<Rightarrow> string \<Rightarrow> real \<Rightarrow> real \<Rightarrow> real \<Rightarrow> (error + unit) \<times> 'g builder" where
  "teleport s world_id player_id x y z =
     (let (t, s1) = now s
      in case insert_position
                \<lparr>pp_player_id = player_id, pp_world_id = world_id, pp_x = x, pp_y = y,
                 pp_z = z, pp_teleported_at = t\<rparr> (player_positions s1) of
           Inr tbl \<Rightarrow> (Inr (), s1\<lparr>player_positions := tbl\<rparr>)
         | Inl IntegrityError \<Rightarrow>
             (Inr (), s1\<lparr>player_positions :=
                          update_position player_id world_id x y z t (player_positions s1)\<rparr>)
         | Inl e \<Rightarrow> (Inl e, s1))"

section \<open>A builder on a new database, and a sample library\<close>

text \<open>
  \<^verbatim>\<open>MetaverseBuilder()\<close> on a database file that does not exist yet: \<^verbatim>\<open>_init_db\<close> creates
  the three tables empty. The generator state and the clock are whatever the process
  has.
\<close>

definition new_builder :: "'g \<Rightarrow> (nat \<Rightarrow> real) \<Rightarrow> 'g builder" where
  "new_builder g clk =
     \<lparr>worlds = [], world_objects = [], player_positions = [], rng = g, clock = clk,
      reads = 0\<rparr>"

text \<open>
  One instance of the library parameters, used to run the model on concrete inputs: a
  linear congruential generator stands for the Mersenne Twister.
\<close>

definition lcg_next :: "nat \<Rightarrow> nat" where
  "lcg_next g = (g * 75 + 74) mod 65537"

definition sample_library :: "nat library" where
  "sample_library =
     \<lparr>random_seed = (\<lambda>n. nat \<bar>n\<bar> mod 65537),
      random_randint = (\<lambda>a b g. (a + int g mod (b - a + 1), lcg_next g)),
      random_uniform = (\<lambda>a b g. (a + (b - a) * real g / 65537, lcg_next g)),
      isoformat = (\<lambda>t. Inr (str_int \<lfloor>t\<rfloor>)),
      sqlite_text_to_num = (\<lambda>t. None),
      sqlite_num_to_text = (\<lambda>r. str_int \<lfloor>r\<rfloor>)\<rparr>"

text \<open>
  A clock that advances by one second between two readings, from the epoch: the
  readings are the floats \<open>0.0\<close>, \<open>1.0\<close>, \<open>2.0\<close>, ...
\<close>

definition sec_clock :: "nat \<Rightarrow> real" where
  "sec_clock k = real k"

section \<open>Notions used in the statements\<close>

subsection \<open>Fresh ids\<close>

text \<open>
  An object id is \<open>obj_\<close> followed by the millisecond count \<open>millis\<close> of the clock
  reading, and the id is the primary key. \<open>upcoming_ids s n\<close> are the ids that the next
  \<open>n\<close> calls of \<^verbatim>\<open>add_object\<close> will draw in state \<open>s\<close> (each call reads the clock once),
  and \<open>fresh_ids s n\<close> says that they are new: pairwise distinct and none of them stored.
  This is the condition under which none of these inserts violates the key.
\<close>

definition upcoming_ids :: "'g builder \<Rightarrow> nat \<Rightarrow> string list" where
  "upcoming_ids s n = map (\<lambda>k. obj_id_of (clock s (reads s + k))) [0..<n]"

definition fresh_ids :: "'g builder \<Rightarrow> nat \<Rightarrow> bool" where
  "fresh_ids s n \<longleftrightarrow>
     distinct (upcoming_ids s n) \<and>
     set (upcoming_ids s n) \<inter> set (map or_id (world_objects s)) = {}"

subsection \<open>The size of a population\<close>

text \<open>
  The number of calls of \<^verbatim>\<open>add_object\<close> that \<^verbatim>\<open>populate_world\<close> makes for a theme: 8
  buildings, the trees, 4 lights and the special object.
\<close>

definition tree_count :: "string \<Rightarrow> nat" where
  "tree_count theme = (if theme \<notin> set [''space'', ''underwater''] then 15 else 0)"

definition special_count :: "string \<Rightarrow> nat" where
  "special_count theme = (if theme \<in> set [''cyberpunk'', ''fantasy'', ''space''] then 1 else 0)"

definition population_size :: "string \<Rightarrow> nat" where
  "population_size theme = 8 + (tree_count theme + (4 + special_count theme))"

subsection \<open>Sequences of calls\<close>

text \<open>
  Calls of the public methods, and a caller that makes them one after the other and
  catches whatever a call raises: each call starts in the state the previous one left,
  whether that one returned or raised.
\<close>

datatype call =
    CreateWorld string string "int option" int
  | AddObject string string string real real real pydict
  | GenerateTerrain string
  | PopulateWorld string
  | Teleport string string real real real

fun run_call :: "'g library \<Rightarrow> call \<Rightarrow> 'g builder \<Rightarrow> 'g builder" where
  "run_call L (CreateWorld name theme seed wsize) s = snd (create_world L s name theme seed wsize)"
| "run_call L (AddObject world_id otype name x y z props) s =
     snd (add_object L s world_id otype name x y z props)"
| "run_call L (GenerateTerrain world_id) s = snd (generate_terrain L s world_id)"
| "run_call L (PopulateWorld world_id) s = snd (populate_world L s world_id)"
| "run_call L (Teleport world_id player_id x y z) s = snd (teleport s world_id player_id x y z)"

definition run_calls :: "'g library \<Rightarrow> call list \<Rightarrow> 'g builder \<Rightarrow> 'g builder" where
  "run_calls L cs s = fold (run_call L) cs s"

text \<open>The primary key of \<^verbatim>\<open>world_objects\<close>: no two rows have the same id.\<close>

definition object_ids_unique :: "'g builder \<Rightarrow> bool" where
  "object_ids_unique s \<longleftrightarrow> distinct (map or_id (world_objects s))"

subsection \<open>Inputs of the concrete runs\<close>

text \<open>
  The world of the spec's scenario, of a given size, created on a new database:
  the state after \<^verbatim>\<open>create_world("Aurora", "arctic", seed=42, size=...)\<close> and, when
  the size fits 64 bits, the row that state holds.
\<close>

definition aurora :: "(nat \<Rightarrow> real) \<Rightarrow> int \<Rightarrow> nat builder" where
  "aurora clk wsize =
     snd (create_world sample_library (new_builder 0 clk) ''Aurora'' ''arctic'' (Some 42) wsize)"

definition aurora_row :: "(nat \<Rightarrow> real) \<Rightarrow> int \<Rightarrow> world_row" where
  "aurora_row clk wsize =
     \<lparr>wr_id = world_id_of (clk 0), wr_name = ''Aurora'', wr_theme = ''arctic'', wr_seed = 42,
      wr_size = wsize, wr_created_at = clk 0,
      wr_description = ''A arctic metaverse world''\<rparr>"

text \<open>
  A clock that stops advancing after its \<open>m\<close>-th reading: every later call of
  \<^verbatim>\<open>datetime.now()\<close> returns the same time, as calls within one millisecond share one
  id.
\<close>

definition stuck_clock :: "nat \<Rightarrow> nat \<Rightarrow> real" where
  "stuck_clock m k = sec_clock (min k m)"

text \<open>
  A second world created right after Aurora with the same theme, seed and size, and
  its row.
\<close>

definition twin_worlds :: "(nat \<Rightarrow> real) \<Rightarrow> int \<Rightarrow> nat builder" where
  "twin_worlds clk wsize =
     snd (create_world sample_library (aurora clk wsize) ''Borealis'' ''arctic'' (Some 42) wsize)"

definition borealis_row :: "(nat \<Rightarrow> real) \<Rightarrow> int \<Rightarrow> world_row" where
  "borealis_row clk wsize =
     \<lparr>wr_id = world_id_of (clk 1), wr_name = ''Borealis'', wr_theme = ''arctic'', wr_seed = 42,
      wr_size = wsize, wr_created_at = clk 1,
      wr_description = ''A arctic metaverse world''\<rparr>"

text \<open>A row of \<^verbatim>\<open>player_positions\<close> for another player, stored before the calls.\<close>

definition bob_row :: position_row where
  "bob_row =
     \<lparr>pp_player_id = ''bob'', pp_world_id = ''world_0'', pp_x = 4, pp_y = 5, pp_z = 6,
      pp_teleported_at = 0\<rparr>"

section \<open>Notions used in the proofs\<close>

text \<open>
  A successful call of \<^verbatim>\<open>add_object\<close> appends one row, reads the clock once and, in the
  generators, follows some draws from the random module. \<open>placed_state s g n rows\<close>
  is \<open>s\<close> after \<open>n\<close> such calls that appended \<open>rows\<close> and left the generator in
  \<open>g\<close>. For a loop whose body draws and then places one object, \<open>placed\<close> lists the
  rows: \<open>mk c g oid\<close> is the row of the iteration for \<open>c\<close> entered with generator \<open>g\<close>
  and given the id \<open>oid\<close>, \<open>nxt c g\<close> the generator it leaves. \<open>placed_row\<close> is the row
  \<^verbatim>\<open>add_object\<close> stores for a numeric scale, a text color and no other property.
  \<open>places W a n gf rf\<close> says that the action \<open>a\<close>, in any state with the worlds \<open>W\<close>
  and \<open>n\<close> fresh ids, returns after placing the \<open>n\<close> rows \<open>rf\<close> under the upcoming ids.
\<close>

definition placed_state :: "'g builder \<Rightarrow> 'g \<Rightarrow> nat \<Rightarrow> object_row list \<Rightarrow> 'g builder" where
  "placed_state s g n rows =
     s\<lparr>world_objects := world_objects s @ rows, rng := g, reads := reads s + n\<rparr>"

fun placed ::
  "('c \<Rightarrow> 'g \<Rightarrow> string \<Rightarrow> object_row) \<Rightarrow> ('c \<Rightarrow> 'g \<Rightarrow> 'g) \<Rightarrow> 'c list \<Rightarrow> 'g \<Rightarrow> (nat \<Rightarrow> real) \<Rightarrow> nat
     \<Rightarrow> object_row list" where
  "placed mk nxt [] g clk n = []"
| "placed mk nxt (c # cs) g clk n =
     mk c g (obj_id_of (clk n)) # placed mk nxt cs (nxt c g) clk (Suc n)"

definition placed_row ::
  "string \<Rightarrow> string \<Rightarrow> string \<Rightarrow> real \<Rightarrow> real \<Rightarrow> real \<Rightarrow> real \<Rightarrow> string \<Rightarrow> string \<Rightarrow> object_row" where
  "placed_row world_id otype oname x y z scale color oid =
     \<lparr>or_id = oid, or_world_id = world_id, or_type = otype, or_name = oname,
      or_x = x, or_y = y, or_z = z, or_scale = PNum scale, or_rotation = PNum 0,
      or_color = PStr color, or_properties = []\<rparr>"

definition places ::
  "world_row list \<Rightarrow> ('g, unit) action \<Rightarrow> nat \<Rightarrow> ('g \<Rightarrow> 'g)
     \<Rightarrow> ('g \<Rightarrow> (nat \<Rightarrow> real) \<Rightarrow> nat \<Rightarrow> object_row list) \<Rightarrow> bool" where
  "places W a n gf rf \<longleftrightarrow>
     (\<forall>s. worlds s = W \<longrightarrow> fresh_ids s n \<longrightarrow>
        a s = (Inr (), placed_state s (gf (rng s)) n (rf (rng s) (clock s) (reads s)))) \<and>
     (\<forall>g clk k. map or_id (rf g clk k) = map (\<lambda>i. obj_id_of (clk (k + i))) [0..<n])"

text \<open>
  The rows of the two generators for a world row: the terrain tiles in row-major order
  of the grid, and the buildings, trees, lights and special object of a population,
  with the generator states in between.
\<close>

definition terrain_mk ::
  "'g library \<Rightarrow> string \<Rightarrow> string \<Rightarrow> nat \<times> nat \<Rightarrow> 'g \<Rightarrow> string \<Rightarrow> object_row" where
  "terrain_mk L world_id theme c g oid =
     placed_row world_id ''terrain'' (''terrain_'' @ str_nat (fst c) @ ''_'' @ str_nat (snd c))
       (real (fst c * 256)) (real_of_int (fst (random_randint L (- 10) 50 g)))
       (real (snd c * 256)) 256 (get_terrain_color theme) oid"

definition terrain_nxt :: "'g library \<Rightarrow> nat \<times> nat \<Rightarrow> 'g \<Rightarrow> 'g" where
  "terrain_nxt L c g = snd (random_randint L (- 10) 50 g)"

definition terrain_rows ::
  "'g library \<Rightarrow> string \<Rightarrow> world_row \<Rightarrow> (nat \<Rightarrow> real) \<Rightarrow> nat \<Rightarrow> object_row list" where
  "terrain_rows L world_id row clk k =
     (let n = nat (py_int (int_truediv_256 (wr_size row)))
      in placed (terrain_mk L world_id (wr_theme row)) (terrain_nxt L)
           (List.product [0..<n] [0..<n]) (random_seed L (wr_seed row)) clk k)"

definition terrain_rng :: "'g library \<Rightarrow> world_row \<Rightarrow> 'g" where
  "terrain_rng L row =
     (let n = nat (py_int (int_truediv_256 (wr_size row)))
      in fold (terrain_nxt L) (List.product [0..<n] [0..<n]) (random_seed L (wr_seed row)))"

definition xz_nxt :: "'g library \<Rightarrow> int \<Rightarrow> nat \<Rightarrow> 'g \<Rightarrow> 'g" where
  "xz_nxt L wsize c g =
     snd (random_uniform L 0 (real_of_int wsize) (snd (random_uniform L 0 (real_of_int wsize) g)))"

definition xz_mk ::
  "'g library \<Rightarrow> int \<Rightarrow> (nat \<Rightarrow> real \<Rightarrow> real \<Rightarrow> string \<Rightarrow> object_row) \<Rightarrow> nat \<Rightarrow> 'g \<Rightarrow> string
     \<Rightarrow> object_row" where
  "xz_mk L wsize f c g oid =
     f c (fst (random_uniform L 0 (real_of_int wsize) g))
         (fst (random_uniform L 0 (real_of_int wsize)
                 (snd (random_uniform L 0 (real_of_int wsize) g)))) oid"

definition building_rows ::
  "'g library \<Rightarrow> string \<Rightarrow> world_row \<Rightarrow> 'g \<Rightarrow> (nat \<Rightarrow> real) \<Rightarrow> nat \<Rightarrow> object_row list" where
  "building_rows L world_id row =
     placed (xz_mk L (wr_size row)
               (\<lambda>i x z. placed_row world_id ''building''
                           (wr_theme row @ ''_building_'' @ str_nat i) x 20 z 20
                           (dict_get THEME_COLORS (wr_theme row) ''#FFFFFF'')))
       (xz_nxt L (wr_size row)) [0..<8]"

definition tree_rows ::
  "'g library \<Rightarrow> string \<Rightarrow> world_row \<Rightarrow> 'g \<Rightarrow> (nat \<Rightarrow> real) \<Rightarrow> nat \<Rightarrow> object_row list" where
  "tree_rows L world_id row =
     placed (xz_mk L (wr_size row)
               (\<lambda>i x z. placed_row world_id ''tree'' (''tree_'' @ str_nat i) x 5 z 5
                           (dict_get THEME_COLORS (wr_theme row) ''#FFFFFF'')))
       (xz_nxt L (wr_size row)) [0..<15]"

definition light_rows ::
  "'g library \<Rightarrow> string \<Rightarrow> world_row \<Rightarrow> 'g \<Rightarrow> (nat \<Rightarrow> real) \<Rightarrow> nat \<Rightarrow> object_row list" where
  "light_rows L world_id row =
     placed (xz_mk L (wr_size row)
               (\<lambda>i x z. placed_row world_id ''light'' (''light_'' @ str_nat i) x 100 z 2
                           ''#FFFF00''))
       (xz_nxt L (wr_size row)) [0..<4]"

definition special_rows :: "string \<Rightarrow> string \<Rightarrow> string \<Rightarrow> object_row list" where
  "special_rows world_id theme oid =
     (if theme = ''cyberpunk'' then
        [placed_row world_id ''npc'' ''neon_runner'' 500 50 500 2 ''#FF00FF'' oid]
      else if theme = ''fantasy'' then
        [placed_row world_id ''artifact'' ''ancient_stone'' 512 20 512 10 ''#808080'' oid]
      else if theme = ''space'' then
        [placed_row world_id ''portal'' ''stargate'' 512 100 512 50 ''#00FFFF'' oid]
      else [])"

definition population_rows ::
  "'g library \<Rightarrow> string \<Rightarrow> world_row \<Rightarrow> (nat \<Rightarrow> real) \<Rightarrow> nat \<Rightarrow> object_row list" where
  "population_rows L world_id row clk k =
     (let g0 = random_seed L (wr_seed row);
          g1 = fold (xz_nxt L (wr_size row)) [0..<8] g0;
          t = tree_count (wr_theme row);
          g2 = fold (xz_nxt L (wr_size row)) [0..<t] g1
      in building_rows L world_id row g0 clk k @
         (if t = 0 then [] else tree_rows L world_id row g1 clk (k + 8)) @
         light_rows L world_id row g2 clk (k + 8 + t) @
         special_rows world_id (wr_theme row) (obj_id_of (clk (k + 8 + t + 4))))"

definition population_rng :: "'g library \<Rightarrow> world_row \<Rightarrow> 'g" where
  "population_rng L row =
     fold (xz_nxt L (wr_size row)) ([0..<8] @ [0..<tree_count (wr_theme row)] @ [0..<4])
       (random_seed L (wr_seed row))"

text \<open>What \<^verbatim>\<open>get_world\<close> returns for a world whose row is \<open>row\<close>.\<close>

definition loaded_world :: "'g builder \<Rightarrow> string \<Rightarrow> world_row \<Rightarrow> MetaverseWorld" where
  "loaded_world s world_id row =
    \<lparr>mw_id = wr_id row, mw_name = wr_name row, mw_theme = wr_theme row,
     mw_seed = wr_seed row, mw_size = wr_size row,
     mw_objects = map row_to_object (filter (\<lambda>r. or_world_id r = world_id) (world_objects s)),
     mw_created_at = PStr (wr_description row), mw_description = ''''\<rparr>"

text \<open>The number a string of decimal digits denotes: the inverse of \<open>str_nat\<close>.\<close>

definition digits_value :: "string \<Rightarrow> nat" where
  "digits_value cs = foldl (\<lambda>acc c. 10 * acc + (of_char c - 48)) 0 cs"

section \<open>Integers as text, float rounding and the grid size\<close>

lemma digit_char_value: "d < 10 \<Longrightarrow> (of_char (digit_char d) :: nat) = 48 + d"
proof -
  assume "d < 10"
  then have "d \<in> {0, 1, 2, 3, 4, 5, 6, 7, 8, 9}" by auto
  then show ?thesis
    by (auto simp: digit_char_def)
qed

lemma digits_value_str_nat: "digits_value (str_nat n) = n"
proof (induction n rule: str_nat.induct)
  case (1 n)
  show ?case
  proof (cases "n < 10")
    case True
    then show ?thesis
      by (subst str_nat.simps) (simp add: digits_value_def digit_char_value)
  next
    case False
    have "digits_value (str_nat n) = 10 * digits_value (str_nat (n div 10)) + n mod 10"
      using False
      by (subst str_nat.simps) (simp add: digits_value_def digit_char_value)
    with False 1 show ?thesis by simp
  qed
qed

lemma str_nat_inj: "str_nat m = str_nat n \<Longrightarrow> m = n"
  by (metis digits_value_str_nat)

lemma str_nat_not_minus: "str_nat n \<noteq> CHR ''-'' # cs"
proof -
  have "hd (str_nat n) \<in> set ''0123456789''"
  proof (induction n rule: str_nat.induct)
    case (1 n)
    show ?case
    proof (cases "n < 10")
      case True
      then have "n \<in> {0, 1, 2, 3, 4, 5, 6, 7, 8, 9}" by auto
      then show ?thesis
        by (subst str_nat.simps) (auto simp: digit_char_def)
    next
      case False
      have "str_nat (n div 10) \<noteq> []"
        by (subst str_nat.simps) simp
      with False 1 show ?thesis
        by (subst str_nat.simps) simp
    qed
  qed
  then show ?thesis by auto
qed

lemma str_int_inj:
  assumes "str_int a = str_int b"
  shows "a = b"
proof (cases "a < 0"; cases "b < 0")
  assume "a < 0" "b < 0"
  with assms have "nat (- a) = nat (- b)"
    by (auto simp: str_int_def dest: str_nat_inj)
  with \<open>a < 0\<close> \<open>b < 0\<close> show ?thesis by simp
next
  assume "a < 0" "\<not> b < 0"
  with assms have "str_nat (nat b) = CHR ''-'' # str_nat (nat (- a))"
    by (simp add: str_int_def)
  then show ?thesis
    by (simp add: str_nat_not_minus)
next
  assume "\<not> a < 0" "b < 0"
  with assms have "str_nat (nat a) = CHR ''-'' # str_nat (nat (- b))"
    by (simp add: str_int_def)
  then show ?thesis
    by (simp add: str_nat_not_minus)
next
  assume "\<not> a < 0" "\<not> b < 0"
  with assms have "nat a = nat b"
    by (auto simp: str_int_def dest: str_nat_inj)
  with \<open>\<not> a < 0\<close> \<open>\<not> b < 0\<close> show ?thesis by simp
qed

lemma str_nat_0 [simp]: "str_nat 0 = ''0''"
  by (subst str_nat.simps) (simp add: digit_char_def)

lemma obj_id_of_inj: "obj_id_of a = obj_id_of b \<Longrightarrow> millis a = millis b"
  by (simp add: obj_id_of_def str_int_inj)

lemma round_half_even_int [simp]: "round_half_even (real_of_int n) = n"
  by (simp add: round_half_even_def)

lemma float_round_int:
  assumes "\<bar>m\<bar> < 2 ^ 53"
  shows "float_round (real_of_int m) = real_of_int m"
proof (cases "m = 0")
  case True
  then show ?thesis by (simp add: float_round_def)
next
  case False
  define a where "a = \<bar>m\<bar>"
  have a: "1 \<le> a" "a < 2 ^ 53"
    using False assms by (simp_all add: a_def)
  have fl: "\<lfloor>\<bar>real_of_int m\<bar>\<rfloor> = a"
    unfolding a_def by (metis floor_of_int of_int_abs)
  have ge: "1 \<le> \<bar>real_of_int m\<bar>"
    using a(1) unfolding a_def by (metis of_int_1_le_iff of_int_abs)
  have e: "float_exponent (real_of_int m) = bitlen a - 1"
    unfolding float_exponent_def fl using ge by simp
  have le: "bitlen a \<le> 53"
    using a(2) by (simp add: bitlen_le_iff_power)
  define d where "d = nat (53 - bitlen a)"
  have u: "pow2 (float_exponent (real_of_int m) - 52) = 1 / 2 ^ d"
  proof (cases "bitlen a = 53")
    case True
    then show ?thesis by (simp add: e pow2_def d_def)
  next
    case False
    with le have "bitlen a - 1 - 52 < 0" by simp
    moreover have "nat (- (bitlen a - 1 - 52)) = d"
      by (simp add: d_def)
    ultimately show ?thesis by (simp add: e pow2_def)
  qed
  have q: "real_of_int m / (1 / 2 ^ d) = real_of_int (m * 2 ^ d)"
    by simp
  have rq: "round_half_even (real_of_int m / (1 / 2 ^ d)) = m * 2 ^ d"
    by (simp only: q round_half_even_int)
  have nz: "real_of_int m \<noteq> 0"
    using False by simp
  have "float_round (real_of_int m) =
          real_of_int (round_half_even (real_of_int m / (1 / 2 ^ d))) * (1 / 2 ^ d)"
    unfolding float_round_def Let_def u using nz by (simp only: if_False)
  also have "\<dots> = real_of_int (m * 2 ^ d) * (1 / 2 ^ d)"
    by (simp only: rq)
  also have "\<dots> = real_of_int m"
    by simp
  finally show ?thesis .
qed

lemma py_int_of_int: "py_int (real_of_int n) = n"
  by (simp add: py_int_def)

lemma round_to_double_exact: "\<bar>n\<bar> < 2 ^ 53 \<Longrightarrow> round_to_double n = n"
  by (simp add: round_to_double_def)

lemma grid_size_exact:
  assumes "0 \<le> n" "n < 2 ^ 53"
  shows "py_int (int_truediv_256 n) = n div 256"
proof -
  have "round_to_double n = n"
    using assms by (intro round_to_double_exact) simp
  moreover have "\<lfloor>real_of_int n / 256\<rfloor> = n div 256"
    using floor_divide_of_int_eq [of n 256, where ?'a = real] by simp
  ultimately show ?thesis
    using assms by (simp add: py_int_def int_truediv_256_def)
qed

lemma round_to_double_sign: "n \<le> 0 \<Longrightarrow> round_to_double n \<le> 0"
proof -
  assume n: "n \<le> 0"
  have "sgn n * (q * 2 ^ e) \<le> 0" if "0 \<le> q" for q :: int and e :: nat
    using n that by (simp add: mult_le_0_iff sgn_if)
  moreover have "0 \<le> (if h < r \<or> r = h \<and> odd q then q + 1 else q)" if "0 \<le> q"
    for q h r :: int
    using that by simp
  moreover have "0 \<le> \<bar>n\<bar> div 2 ^ e" for e :: nat
    by (simp add: pos_imp_zdiv_nonneg_iff)
  ultimately show ?thesis
    using n by (simp add: round_to_double_def Let_def)
qed

lemma grid_size_small:
  assumes "n < 256"
  shows "nat (py_int (int_truediv_256 n)) = 0"
proof (cases "0 \<le> n")
  case True
  with assms have "py_int (int_truediv_256 n) = n div 256"
    by (intro grid_size_exact) simp_all
  with assms True show ?thesis by simp
next
  case False
  then have "round_to_double n \<le> 0"
    by (intro round_to_double_sign) simp
  then have "int_truediv_256 n \<le> 0"
    by (simp add: int_truediv_256_def divide_le_0_iff)
  then have "py_int (int_truediv_256 n) \<le> 0"
    by (auto simp: py_int_def ceiling_le_iff floor_le_iff)
  then show ?thesis by simp
qed



lemma grid_512: "nat (py_int (int_truediv_256 512)) = 2"
  by (simp add: grid_size_exact)

lemma grid_256: "nat (py_int (int_truediv_256 256)) = 1"
  by (simp add: grid_size_exact)

section \<open>Single calls\<close>

subsection \<open>get_world and create_world\<close>

lemma get_world_found:
  assumes "find (\<lambda>r. wr_id r = world_id) (worlds s) = Some row"
  shows "get_world s world_id =
           Some \<lparr>mw_id = wr_id row, mw_name = wr_name row, mw_theme = wr_theme row,
                 mw_seed = wr_seed row, mw_size = wr_size row,
                 mw_objects = map row_to_object
                                (filter (\<lambda>r. or_world_id r = world_id) (world_objects s)),
                 mw_created_at = PStr (wr_description row),
                 mw_description = ''''\<rparr>"
  using assms by (simp add: get_world_def)

lemma get_world_loaded:
  "find (\<lambda>r. wr_id r = world_id) (worlds s) = Some row \<Longrightarrow>
     get_world s world_id = Some (loaded_world s world_id row)"
  by (simp add: get_world_found loaded_world_def)

lemma loaded_world_simps [simp]:
  "mw_theme (loaded_world s world_id row) = wr_theme row"
  "mw_seed (loaded_world s world_id row) = wr_seed row"
  "mw_size (loaded_world s world_id row) = wr_size row"
  "mw_name (loaded_world s world_id row) = wr_name row"
  "mw_objects (loaded_world s world_id row) =
     map row_to_object (filter (\<lambda>r. or_world_id r = world_id) (world_objects s))"
  by (simp_all add: loaded_world_def)

lemma create_world_ok:
  assumes "theme \<in> set THEMES" "fits_int64 seed" "fits_int64 wsize"
    and "world_id_of (clock s (reads s)) \<notin> set (map wr_id (worlds s))"
  shows "create_world L s name theme (Some seed) wsize =
           (Inr \<lparr>mw_id = world_id_of (clock s (reads s)), mw_name = name, mw_theme = theme,
                 mw_seed = seed, mw_size = wsize, mw_objects = [],
                 mw_created_at = PNum (clock s (reads s)), mw_description = ''''\<rparr>,
            s\<lparr>worlds := worlds s @
                  [\<lparr>wr_id = world_id_of (clock s (reads s)), wr_name = name, wr_theme = theme,
                    wr_seed = seed, wr_size = wsize, wr_created_at = clock s (reads s),
                    wr_description = ''A '' @ theme @ '' metaverse world''\<rparr>],
              reads := Suc (reads s)\<rparr>)"
  using assms by (simp add: create_world_def now_def insert_world_def Let_def)

subsection \<open>add_object\<close>

lemma placed_state_simps [simp]:
  "worlds (placed_state s g n rows) = worlds s"
  "world_objects (placed_state s g n rows) = world_objects s @ rows"
  "player_positions (placed_state s g n rows) = player_positions s"
  "rng (placed_state s g n rows) = g"
  "clock (placed_state s g n rows) = clock s"
  "reads (placed_state s g n rows) = reads s + n"
  by (simp_all add: placed_state_def)

lemma placed_state_twice:
  "placed_state (placed_state s g m rows) g' n rows' = placed_state s g' (m + n) (rows @ rows')"
  by (simp add: placed_state_def add.assoc)

lemma placed_state_rng [simp]:
  "placed_state (s\<lparr>rng := g0\<rparr>) g n rows = placed_state s g n rows"
  by (simp add: placed_state_def)

lemma discard_simps [simp]:
  "discard (Inr v, s) = (Inr (), s)"
  "discard (Inl e, s) = (Inl e, s)"
  by (simp_all add: discard_def)

lemma snd_discard [simp]: "snd (discard r) = snd r"
  by (cases r) (auto simp: discard_def split: sum.splits)

lemma add_object_placed:
  assumes ty: "otype \<in> set OBJECT_TYPES"
    and w: "find (\<lambda>r. wr_id r = world_id) (worlds s) = Some row"
    and sc: "real_affinity L (dict_get props ''scale'' (PNum 1)) = Inr sc"
    and ro: "real_affinity L (dict_get props ''rotation'' (PNum 0)) = Inr ro"
    and co: "text_affinity L (dict_get props ''color''
               (PStr (dict_get THEME_COLORS (wr_theme row) ''#FFFFFF''))) = Inr co"
    and fresh: "obj_id_of (clock s (reads s)) \<notin> set (map or_id (world_objects s))"
  shows "add_object L s world_id otype oname x y z props =
           (Inr \<lparr>obj_id = obj_id_of (clock s (reads s)), obj_type = otype, obj_name = oname,
                 obj_x = x, obj_y = y, obj_z = z,
                 obj_scale = dict_get props ''scale'' (PNum 1),
                 obj_rotation = dict_get props ''rotation'' (PNum 0),
                 obj_color = dict_get props ''color''
                               (PStr (dict_get THEME_COLORS (wr_theme row) ''#FFFFFF'')),
                 obj_properties =
                   filter (\<lambda>(k, v). k \<notin> set [''scale'', ''rotation'', ''color'']) props\<rparr>,
            placed_state s (rng s) 1
              [\<lparr>or_id = obj_id_of (clock s (reads s)), or_world_id = world_id, or_type = otype,
                or_name = oname, or_x = x, or_y = y, or_z = z, or_scale = sc, or_rotation = ro,
                or_color = co,
                or_properties =
                  filter (\<lambda>(k, v). k \<notin> set [''scale'', ''rotation'', ''color'']) props\<rparr>])"
  using ty fresh
  by (simp add: add_object_def get_world_found [OF w] now_def sc ro co insert_object_def
        placed_state_def Let_def)

lemma or_id_placed_row [simp]: "or_id (placed_row w t n x y z sc co oid) = oid"
  by (simp add: placed_row_def)

lemma placed_row_simps [simp]:
  "or_world_id (placed_row w t n x y z sc co oid) = w"
  "or_type (placed_row w t n x y z sc co oid) = t"
  "or_name (placed_row w t n x y z sc co oid) = n"
  "or_x (placed_row w t n x y z sc co oid) = x"
  "or_y (placed_row w t n x y z sc co oid) = y"
  "or_z (placed_row w t n x y z sc co oid) = z"
  "or_scale (placed_row w t n x y z sc co oid) = PNum sc"
  "or_rotation (placed_row w t n x y z sc co oid) = PNum 0"
  "or_color (placed_row w t n x y z sc co oid) = PStr co"
  "or_properties (placed_row w t n x y z sc co oid) = []"
  by (simp_all add: placed_row_def)

lemma add_object_placed_row:
  assumes ty: "otype \<in> set OBJECT_TYPES"
    and w: "find (\<lambda>r. wr_id r = world_id) (worlds s) = Some row"
    and props: "props = [(''scale'', PNum scale), (''color'', PStr color)] \<or>
                props = [(''scale'', PNum scale)] \<and>
                color = dict_get THEME_COLORS (wr_theme row) ''#FFFFFF''"
    and fresh: "obj_id_of (clock s (reads s)) \<notin> set (map or_id (world_objects s))"
  shows "discard (add_object L s world_id otype oname x y z props) =
           (Inr (), placed_state s (rng s) 1
                      [placed_row world_id otype oname x y z scale color
                         (obj_id_of (clock s (reads s)))])"
proof -
  have sc: "real_affinity L (dict_get props ''scale'' (PNum 1)) = Inr (PNum scale)"
    using props by (auto simp: dict_get_def)
  have ro: "real_affinity L (dict_get props ''rotation'' (PNum 0)) = Inr (PNum 0)"
    using props by (auto simp: dict_get_def)
  have co: "text_affinity L (dict_get props ''color''
              (PStr (dict_get THEME_COLORS (wr_theme row) ''#FFFFFF''))) = Inr (PStr color)"
    using props by (auto simp: dict_get_def)
  have pr: "filter (\<lambda>(k, v). k \<notin> set [''scale'', ''rotation'', ''color'']) props = []"
    using props by auto
  show ?thesis
    unfolding add_object_placed [OF ty w sc ro co fresh]
    using pr by (simp add: placed_row_def)
qed

lemma add_object_collision:
  assumes ty: "otype \<in> set OBJECT_TYPES"
    and w: "find (\<lambda>r. wr_id r = world_id) (worlds s) = Some row"
    and props: "props = [(''scale'', PNum scale), (''color'', PStr color)] \<or>
                props = [(''scale'', PNum scale)]"
    and old: "obj_id_of (clock s (reads s)) \<in> set (map or_id (world_objects s))"
  shows "add_object L s world_id otype oname x y z props =
           (Inl IntegrityError, s\<lparr>reads := Suc (reads s)\<rparr>)"
  using ty old props
  by (auto simp: add_object_def get_world_found [OF w] now_def insert_object_def Let_def
        dict_get_def)

lemma add_object_id:
  "add_object L s world_id otype name x y z props = (Inr ob, s') \<Longrightarrow>
     obj_id ob = obj_id_of (clock s (reads s))"
  by (auto simp: add_object_def now_def Let_def split: option.splits sum.splits if_splits)

section \<open>Loops that place objects\<close>

subsection \<open>Loops\<close>

lemma for_each_append:
  "for_each body (xs @ ys) s =
     (case for_each body xs s of (Inl e, s') \<Rightarrow> (Inl e, s') | (Inr u, s') \<Rightarrow> for_each body ys s')"
  by (induction xs arbitrary: s) (auto split: prod.splits sum.splits)

lemma for_each_map:
  "for_each body (map f xs) s = for_each (\<lambda>x. body (f x)) xs s"
  by (induction xs arbitrary: s) (auto split: prod.splits sum.splits)

lemma for_each_product:
  "for_each (\<lambda>i. for_each (body i) ys) xs s =
     for_each (\<lambda>(i, j). body i j) (List.product xs ys) s"
  by (induction xs arbitrary: s)
     (auto simp: for_each_append for_each_map split: prod.splits sum.splits)

subsection \<open>Fresh ids\<close>

lemma upcoming_ids_Suc:
  "upcoming_ids s (Suc n) =
     obj_id_of (clock s (reads s)) # upcoming_ids (s\<lparr>reads := Suc (reads s)\<rparr>) n"
proof -
  have "[0..<Suc n] = 0 # map Suc [0..<n]"
    by (simp add: upt_conv_Cons map_Suc_upt del: upt_Suc)
  then show ?thesis
    by (simp add: upcoming_ids_def comp_def del: upt_Suc)
qed

lemma length_upcoming_ids [simp]: "length (upcoming_ids s n) = n"
  by (simp add: upcoming_ids_def)

lemma upcoming_ids_add:
  "upcoming_ids s (m + n) = upcoming_ids s m @ upcoming_ids (s\<lparr>reads := reads s + m\<rparr>) n"
proof -
  have a: "[0..<m + n] = [0..<m] @ [m..<m + n]"
    using upt_add_eq_append [of 0 m n] by simp
  have b: "[m..<m + n] = map (\<lambda>k. k + m) [0..<n]"
    using map_add_upt [of m n] by (simp add: add.commute)
  show ?thesis
    unfolding upcoming_ids_def a b
    by (simp add: comp_def ac_simps)
qed

lemma fresh_ids_0 [simp]: "fresh_ids s 0"
  by (simp add: fresh_ids_def upcoming_ids_def)

lemma fresh_ids_rng [simp]: "fresh_ids (s\<lparr>rng := g\<rparr>) n = fresh_ids s n"
  by (simp add: fresh_ids_def upcoming_ids_def)

lemma fresh_ids_head:
  "fresh_ids s (Suc n) \<Longrightarrow> obj_id_of (clock s (reads s)) \<notin> set (map or_id (world_objects s))"
  by (auto simp: fresh_ids_def upcoming_ids_Suc)

lemma fresh_ids_split:
  assumes "fresh_ids s (m + n)"
    and "clock s' = clock s" and "reads s' = reads s + m"
    and "map or_id (world_objects s') = map or_id (world_objects s) @ upcoming_ids s m"
  shows "fresh_ids s m \<and> fresh_ids s' n"
proof -
  have eq: "upcoming_ids s' n = upcoming_ids (s\<lparr>reads := reads s + m\<rparr>) n"
    using assms(2,3) by (simp add: upcoming_ids_def)
  from assms(1) show ?thesis
    unfolding fresh_ids_def upcoming_ids_add eq [symmetric] assms(4)
    by auto
qed

lemma fresh_ids_tail:
  assumes "fresh_ids s (Suc n)"
    and "clock s' = clock s" and "reads s' = Suc (reads s)"
    and "map or_id (world_objects s') =
           map or_id (world_objects s) @ [obj_id_of (clock s (reads s))]"
  shows "fresh_ids s' n"
  using fresh_ids_split [of s 1 n s'] assms
  by (simp add: upcoming_ids_def)

lemma fresh_ids_placed:
  assumes "fresh_ids s (m + n)" and "map or_id rows = upcoming_ids s m"
  shows "fresh_ids (placed_state s g m rows) n"
  using fresh_ids_split [OF assms(1), of "placed_state s g m rows"] assms(2) by simp

lemma fresh_ids_empty:
  assumes "world_objects s = []"
    and "inj_on (\<lambda>k. millis (clock s (reads s + k))) {0..<n}"
  shows "fresh_ids s n"
proof -
  have "inj_on (\<lambda>k. obj_id_of (clock s (reads s + k))) {0..<n}"
    using assms(2) by (auto simp: inj_on_def dest!: obj_id_of_inj)
  then show ?thesis
    using assms(1) by (simp add: fresh_ids_def upcoming_ids_def distinct_map)
qed

subsection \<open>A loop of placements\<close>

lemma length_placed [simp]: "length (placed mk nxt cs g clk n) = length cs"
  by (induction cs arbitrary: g n) auto

lemma placed_ids:
  assumes "\<And>c g oid. or_id (mk c g oid) = oid"
  shows "map or_id (placed mk nxt cs g (clock s) (reads s)) = upcoming_ids s (length cs)"
  using assms
proof (induction cs arbitrary: g s)
  case Nil
  then show ?case by (simp add: upcoming_ids_def)
next
  case (Cons c cs)
  have "map or_id (placed mk nxt cs (nxt c g) (clock (s\<lparr>reads := Suc (reads s)\<rparr>))
          (reads (s\<lparr>reads := Suc (reads s)\<rparr>))) =
        upcoming_ids (s\<lparr>reads := Suc (reads s)\<rparr>) (length cs)"
    by (rule Cons.IH) (rule Cons.prems)
  then show ?case
    by (simp add: upcoming_ids_Suc Cons.prems)
qed

lemma for_each_placed:
  assumes step: "\<And>c s. c \<in> set cs \<Longrightarrow> worlds s = W \<Longrightarrow>
                   obj_id_of (clock s (reads s)) \<notin> set (map or_id (world_objects s)) \<Longrightarrow>
                   body c s = (Inr (), placed_state s (nxt c (rng s)) 1
                                         [mk c (rng s) (obj_id_of (clock s (reads s)))])"
    and mk_id: "\<And>c g oid. or_id (mk c g oid) = oid"
    and W: "worlds s = W"
    and fresh: "fresh_ids s (length cs)"
  shows "for_each body cs s =
           (Inr (), placed_state s (fold nxt cs (rng s)) (length cs)
                      (placed mk nxt cs (rng s) (clock s) (reads s)))"
  using step W fresh
proof (induction cs arbitrary: s)
  case Nil
  then show ?case by (simp add: placed_state_def)
next
  case (Cons c cs)
  let ?oid = "obj_id_of (clock s (reads s))"
  let ?s' = "placed_state s (nxt c (rng s)) 1 [mk c (rng s) ?oid]"
  have head: "?oid \<notin> set (map or_id (world_objects s))"
    by (rule fresh_ids_head [of s "length cs"]) (use Cons.prems(3) in simp)
  have b: "body c s = (Inr (), ?s')"
    by (rule Cons.prems(1)) (simp_all add: Cons.prems(2) head del: set_map)
  have f': "fresh_ids ?s' (length cs)"
  proof (rule fresh_ids_tail [of s])
    show "fresh_ids s (Suc (length cs))" using Cons.prems(3) by simp
  qed (simp_all add: mk_id)
  have W': "worlds ?s' = W"
    by (simp add: Cons.prems(2))
  have step': "\<And>c' s. c' \<in> set cs \<Longrightarrow> worlds s = W \<Longrightarrow>
                   obj_id_of (clock s (reads s)) \<notin> set (map or_id (world_objects s)) \<Longrightarrow>
                   body c' s = (Inr (), placed_state s (nxt c' (rng s)) 1
                                         [mk c' (rng s) (obj_id_of (clock s (reads s)))])"
    by (rule Cons.prems(1)) simp_all
  have "for_each body cs ?s' =
          (Inr (), placed_state ?s' (fold nxt cs (rng ?s')) (length cs)
                     (placed mk nxt cs (rng ?s') (clock ?s') (reads ?s')))"
    by (rule Cons.IH [OF step' W' f'])
  then show ?case
    by (simp add: b placed_state_twice)
qed

lemma placesD:
  "places W a n gf rf \<Longrightarrow> worlds s = W \<Longrightarrow> fresh_ids s n \<Longrightarrow>
     a s = (Inr (), placed_state s (gf (rng s)) n (rf (rng s) (clock s) (reads s)))"
  by (simp add: places_def)

lemma places_for_each:
  assumes step: "\<And>c s. c \<in> set cs \<Longrightarrow> worlds s = W \<Longrightarrow>
                   obj_id_of (clock s (reads s)) \<notin> set (map or_id (world_objects s)) \<Longrightarrow>
                   body c s = (Inr (), placed_state s (nxt c (rng s)) 1
                                         [mk c (rng s) (obj_id_of (clock s (reads s)))])"
    and mk_id: "\<And>c g oid. or_id (mk c g oid) = oid"
  shows "places W (for_each body cs) (length cs) (fold nxt cs) (placed mk nxt cs)"
  unfolding places_def
proof (intro conjI allI impI)
  fix s :: "'b builder"
  assume "worlds s = W" "fresh_ids s (length cs)"
  then show "for_each body cs s =
           (Inr (), placed_state s (fold nxt cs (rng s)) (length cs)
                      (placed mk nxt cs (rng s) (clock s) (reads s)))"
    using for_each_placed [where body = body and mk = mk and nxt = nxt, OF step mk_id]
    by blast
next
  fix g :: 'b and clk :: "nat \<Rightarrow> real" and k
  show "map or_id (placed mk nxt cs g clk k) = map (\<lambda>i. obj_id_of (clk (k + i))) [0..<length cs]"
    using placed_ids [where mk = mk and nxt = nxt and cs = cs and g = g
        and s = "\<lparr>worlds = [], world_objects = [], player_positions = [], rng = g,
                  clock = clk, reads = k\<rparr>", OF mk_id]
    by (simp add: upcoming_ids_def)
qed

lemma places_and_then:
  assumes a: "places W a m gf rf" and b: "places W b n gf' rf'"
  shows "places W (and_then a b) (m + n) (\<lambda>g. gf' (gf g))
           (\<lambda>g clk k. rf g clk k @ rf' (gf g) clk (k + m))"
  unfolding places_def
proof (intro conjI allI impI)
  fix s :: "'a builder"
  assume W: "worlds s = W" and fr: "fresh_ids s (m + n)"
  let ?s' = "placed_state s (gf (rng s)) m (rf (rng s) (clock s) (reads s))"
  have ids: "map or_id (rf (rng s) (clock s) (reads s)) = upcoming_ids s m"
    using a by (simp add: places_def upcoming_ids_def)
  have "fresh_ids s m \<and> fresh_ids ?s' n"
    by (rule fresh_ids_split [OF fr]) (simp_all add: ids)
  then have fm: "fresh_ids s m" and fn: "fresh_ids ?s' n"
    by simp_all
  have ra: "a s = (Inr (), ?s')"
    using a W fm by (simp add: places_def)
  have "worlds ?s' = W"
    using W by simp
  then have rb: "b ?s' = (Inr (), placed_state ?s' (gf' (rng ?s')) n
                                    (rf' (rng ?s') (clock ?s') (reads ?s')))"
    using b fn unfolding places_def by blast
  show "and_then a b s =
          (Inr (), placed_state s (gf' (gf (rng s))) (m + n)
                     (rf (rng s) (clock s) (reads s) @ rf' (gf (rng s)) (clock s) (reads s + m)))"
    by (simp add: and_then_def ra rb placed_state_twice)
next
  fix g :: 'a and clk :: "nat \<Rightarrow> real" and k
  have a': "[0..<m + n] = [0..<m] @ [m..<m + n]"
    using upt_add_eq_append [of 0 m n] by simp
  have b': "[m..<m + n] = map (\<lambda>i. i + m) [0..<n]"
    using map_add_upt [of m n] by (simp add: add.commute)
  have 1: "map or_id (rf g clk k) = map (\<lambda>i. obj_id_of (clk (k + i))) [0..<m]"
    using a by (simp add: places_def)
  have 2: "map or_id (rf' (gf g) clk (k + m)) = map (\<lambda>i. obj_id_of (clk (k + m + i))) [0..<n]"
    using b by (simp add: places_def)
  show "map or_id (rf g clk k @ rf' (gf g) clk (k + m)) =
          map (\<lambda>i. obj_id_of (clk (k + i))) [0..<m + n]"
    unfolding a' b' by (simp add: 1 2 comp_def ac_simps)
qed

lemma places_skip: "places W skip 0 (\<lambda>g. g) (\<lambda>g clk k. [])"
  by (simp add: places_def skip_def placed_state_def)

subsection \<open>The loop bodies\<close>

lemma terrain_cell_step:
  assumes w: "find (\<lambda>r. wr_id r = world_id) W = Some row"
    and W: "worlds s = W"
    and fresh: "obj_id_of (clock s (reads s)) \<notin> set (map or_id (world_objects s))"
  shows "terrain_cell L world_id world i j s =
           (Inr (), placed_state s (terrain_nxt L (i, j) (rng s)) 1
                      [terrain_mk L world_id (mw_theme world) (i, j) (rng s)
                         (obj_id_of (clock s (reads s)))])"
proof -
  obtain h g where hg: "random_randint L (- 10) 50 (rng s) = (h, g)"
    by (cases "random_randint L (- 10) 50 (rng s)")
  have "discard (add_object L (s\<lparr>rng := g\<rparr>) world_id ''terrain''
                  (''terrain_'' @ str_nat i @ ''_'' @ str_nat j) (real (i * 256)) (real_of_int h)
                  (real (j * 256))
                  [(''scale'', PNum 256), (''color'', PStr (get_terrain_color (mw_theme world)))]) =
        (Inr (), placed_state (s\<lparr>rng := g\<rparr>) (rng (s\<lparr>rng := g\<rparr>)) 1
                   [placed_row world_id ''terrain'' (''terrain_'' @ str_nat i @ ''_'' @ str_nat j)
                      (real (i * 256)) (real_of_int h) (real (j * 256)) 256
                      (get_terrain_color (mw_theme world))
                      (obj_id_of (clock (s\<lparr>rng := g\<rparr>) (reads (s\<lparr>rng := g\<rparr>))))])"
    by (rule add_object_placed_row [where row = row])
       (use w W fresh in \<open>simp_all add: OBJECT_TYPES_def\<close>)
  then show ?thesis
    by (simp add: terrain_cell_def hg terrain_mk_def terrain_nxt_def)
qed

lemma terrain_cell_collision:
  assumes w: "find (\<lambda>r. wr_id r = world_id) (worlds s) = Some row"
    and old: "obj_id_of (clock s (reads s)) \<in> set (map or_id (world_objects s))"
  shows "terrain_cell L world_id world i j s =
           (Inl IntegrityError,
            s\<lparr>rng := terrain_nxt L (i, j) (rng s), reads := Suc (reads s)\<rparr>)"
proof -
  obtain h g where hg: "random_randint L (- 10) 50 (rng s) = (h, g)"
    by (cases "random_randint L (- 10) 50 (rng s)")
  have "add_object L (s\<lparr>rng := g\<rparr>) world_id ''terrain''
                  (''terrain_'' @ str_nat i @ ''_'' @ str_nat j) (real (i * 256)) (real_of_int h)
                  (real (j * 256))
                  [(''scale'', PNum 256), (''color'', PStr (get_terrain_color (mw_theme world)))] =
        (Inl IntegrityError, (s\<lparr>rng := g\<rparr>)\<lparr>reads := Suc (reads (s\<lparr>rng := g\<rparr>))\<rparr>)"
    by (rule add_object_collision [where row = row])
       (use w old in \<open>simp_all add: OBJECT_TYPES_def\<close>)
  then show ?thesis
    by (simp add: terrain_cell_def hg terrain_nxt_def)
qed

lemma xz_step:
  assumes body: "\<And>s. body s =
            (let (x, g1) = random_uniform L 0 (real_of_int wsize) (rng s);
                 (z, g2) = random_uniform L 0 (real_of_int wsize) g1
             in discard (add_object L (s\<lparr>rng := g2\<rparr>) world_id otype oname x y z props))"
    and ty: "otype \<in> set OBJECT_TYPES"
    and props: "props = [(''scale'', PNum scale), (''color'', PStr color)] \<or>
                props = [(''scale'', PNum scale)] \<and>
                color = dict_get THEME_COLORS (wr_theme row) ''#FFFFFF''"
    and w: "find (\<lambda>r. wr_id r = world_id) W = Some row"
    and W: "worlds s = W"
    and fresh: "obj_id_of (clock s (reads s)) \<notin> set (map or_id (world_objects s))"
  shows "body s =
           (Inr (), placed_state s (xz_nxt L wsize c (rng s)) 1
                      [xz_mk L wsize (\<lambda>i x z. placed_row world_id otype oname x y z scale color) c
                         (rng s) (obj_id_of (clock s (reads s)))])"
proof -
  obtain x g1 where u1: "random_uniform L 0 (real_of_int wsize) (rng s) = (x, g1)"
    by (cases "random_uniform L 0 (real_of_int wsize) (rng s)")
  obtain z g2 where u2: "random_uniform L 0 (real_of_int wsize) g1 = (z, g2)"
    by (cases "random_uniform L 0 (real_of_int wsize) g1")
  have "discard (add_object L (s\<lparr>rng := g2\<rparr>) world_id otype oname x y z props) =
        (Inr (), placed_state (s\<lparr>rng := g2\<rparr>) (rng (s\<lparr>rng := g2\<rparr>)) 1
                   [placed_row world_id otype oname x y z scale color
                      (obj_id_of (clock (s\<lparr>rng := g2\<rparr>) (reads (s\<lparr>rng := g2\<rparr>))))])"
    by (rule add_object_placed_row [where row = row])
       (use w W fresh ty props in simp_all)
  then show ?thesis
    by (simp add: body u1 u2 xz_mk_def xz_nxt_def)
qed

lemma places_xz_loop:
  assumes body: "\<And>i s. body i s =
            (let (x, g1) = random_uniform L 0 (real_of_int wsize) (rng s);
                 (z, g2) = random_uniform L 0 (real_of_int wsize) g1
             in discard (add_object L (s\<lparr>rng := g2\<rparr>) world_id otype (oname i) x y z props))"
    and ty: "otype \<in> set OBJECT_TYPES"
    and props: "props = [(''scale'', PNum scale), (''color'', PStr color)] \<or>
                props = [(''scale'', PNum scale)] \<and>
                color = dict_get THEME_COLORS (wr_theme row) ''#FFFFFF''"
    and w: "find (\<lambda>r. wr_id r = world_id) W = Some row"
  shows "places W (for_each body cs) (length cs) (fold (xz_nxt L wsize) cs)
           (placed (xz_mk L wsize (\<lambda>i x z. placed_row world_id otype (oname i) x y z scale color))
              (xz_nxt L wsize) cs)"
proof (rule places_for_each)
  fix c and s :: "'a builder"
  assume W: "worlds s = W"
    and fresh: "obj_id_of (clock s (reads s)) \<notin> set (map or_id (world_objects s))"
  show "body c s =
         (Inr (), placed_state s (xz_nxt L wsize c (rng s)) 1
            [xz_mk L wsize (\<lambda>i x z. placed_row world_id otype (oname i) x y z scale color) c
               (rng s) (obj_id_of (clock s (reads s)))])"
    using xz_step [where body = "body c" and oname = "oname c" and c = c, OF body ty props w W fresh]
    by (simp add: xz_mk_def)
qed (simp add: xz_mk_def)

lemma places_special:
  assumes w: "find (\<lambda>r. wr_id r = world_id) W = Some row"
    and th: "mw_theme world = wr_theme row"
  shows "places W (place_special L world_id world) (special_count (wr_theme row)) (\<lambda>g. g)
           (\<lambda>g clk k. special_rows world_id (wr_theme row) (obj_id_of (clk k)))"
  unfolding places_def
proof (intro conjI allI impI)
  fix s :: "'a builder"
  assume W: "worlds s = W" and fr: "fresh_ids s (special_count (wr_theme row))"
  show "place_special L world_id world s =
          (Inr (), placed_state s (rng s) (special_count (wr_theme row))
                     (special_rows world_id (wr_theme row) (obj_id_of (clock s (reads s)))))"
  proof (cases "wr_theme row \<in> set [''cyberpunk'', ''fantasy'', ''space'']")
    case False
    then show ?thesis
      by (simp add: place_special_def th special_count_def special_rows_def placed_state_def)
  next
    case True
    then have "fresh_ids s (Suc 0)"
      using fr by (simp add: special_count_def)
    then have fresh: "obj_id_of (clock s (reads s)) \<notin> set (map or_id (world_objects s))"
      by (rule fresh_ids_head)
    have w': "find (\<lambda>r. wr_id r = world_id) (worlds s) = Some row"
      using w W by simp
    note step = add_object_placed_row [where L = L and s = s and world_id = world_id, OF _ w' _ fresh]
    from True show ?thesis
      by (auto simp: place_special_def th special_count_def special_rows_def step
            OBJECT_TYPES_def)
  qed
next
  fix g :: 'a and clk :: "nat \<Rightarrow> real" and k
  show "map or_id (special_rows world_id (wr_theme row) (obj_id_of (clk k))) =
          map (\<lambda>i. obj_id_of (clk (k + i))) [0..<special_count (wr_theme row)]"
    by (simp add: special_rows_def special_count_def)
qed

lemma place_building_placed:
  assumes w: "find (\<lambda>r. wr_id r = world_id) (worlds s) = Some row"
    and th: "mw_theme world = wr_theme row"
    and fresh: "obj_id_of (clock s (reads s)) \<notin> set (map or_id (world_objects s))"
  shows "place_building L world_id world i s =
           (Inr (), placed_state s (xz_nxt L (mw_size world) i (rng s)) 1
              [xz_mk L (mw_size world)
                 (\<lambda>i x z. placed_row world_id ''building''
                             (wr_theme row @ ''_building_'' @ str_nat i) x 20 z 20
                             (dict_get THEME_COLORS (wr_theme row) ''#FFFFFF''))
                 i (rng s) (obj_id_of (clock s (reads s)))])"
  using xz_step [where body = "place_building L world_id world i" and L = L
      and wsize = "mw_size world" and world_id = world_id and otype = "''building''"
      and oname = "wr_theme row @ ''_building_'' @ str_nat i" and y = 20
      and props = "[(''scale'', PNum 20)]" and scale = 20
      and color = "dict_get THEME_COLORS (wr_theme row) ''#FFFFFF''" and c = i
      and W = "worlds s" and row = row and s = s, OF _ _ _ w refl fresh]
  by (simp add: place_building_def th OBJECT_TYPES_def xz_mk_def)

lemma place_building_collision:
  assumes w: "find (\<lambda>r. wr_id r = world_id) (worlds s) = Some row"
    and old: "obj_id_of (clock s (reads s)) \<in> set (map or_id (world_objects s))"
  shows "place_building L world_id world i s =
           (Inl IntegrityError,
            s\<lparr>rng := xz_nxt L (mw_size world) i (rng s), reads := Suc (reads s)\<rparr>)"
proof -
  obtain x g1 where u1: "random_uniform L 0 (real_of_int (mw_size world)) (rng s) = (x, g1)"
    by (cases "random_uniform L 0 (real_of_int (mw_size world)) (rng s)")
  obtain z g2 where u2: "random_uniform L 0 (real_of_int (mw_size world)) g1 = (z, g2)"
    by (cases "random_uniform L 0 (real_of_int (mw_size world)) g1")
  have "add_object L (s\<lparr>rng := g2\<rparr>) world_id ''building''
          (mw_theme world @ ''_building_'' @ str_nat i) x 20 z [(''scale'', PNum 20)] =
        (Inl IntegrityError, (s\<lparr>rng := g2\<rparr>)\<lparr>reads := Suc (reads (s\<lparr>rng := g2\<rparr>))\<rparr>)"
    by (rule add_object_collision [where row = row])
       (use w old in \<open>simp_all add: OBJECT_TYPES_def\<close>)
  then show ?thesis
    by (simp add: place_building_def u1 u2 xz_nxt_def)
qed

subsection \<open>The two generators\<close>

lemma generate_terrain_placed:
  assumes w: "find (\<lambda>r. wr_id r = world_id) (worlds s) = Some row"
    and n: "n = nat (py_int (int_truediv_256 (wr_size row)))"
    and fresh: "fresh_ids s (n * n)"
  shows "generate_terrain L s world_id =
           (Inr (), placed_state s (terrain_rng L row) (n * n)
                      (terrain_rows L world_id row (clock s) (reads s)))"
proof -
  define world where "world = loaded_world s world_id row"
  have gw: "get_world s world_id = Some world"
    unfolding world_def by (rule get_world_loaded [OF w])
  let ?cs = "List.product [0..<n] [0..<n]"
  let ?g0 = "random_seed L (wr_seed row)"
  have "places (worlds s) (for_each (\<lambda>(i, j). terrain_cell L world_id world i j) ?cs)
          (length ?cs) (fold (terrain_nxt L) ?cs)
          (placed (terrain_mk L world_id (mw_theme world)) (terrain_nxt L) ?cs)"
  proof (rule places_for_each)
    fix c and s' :: "'a builder"
    assume "worlds s' = worlds s"
      and "obj_id_of (clock s' (reads s')) \<notin> set (map or_id (world_objects s'))"
    then show "(case c of (i, j) \<Rightarrow> terrain_cell L world_id world i j) s' =
         (Inr (), placed_state s' (terrain_nxt L c (rng s')) 1
            [terrain_mk L world_id (mw_theme world) c (rng s') (obj_id_of (clock s' (reads s')))])"
      using terrain_cell_step [OF w, of s' L world "fst c" "snd c"]
      by (cases c) simp
  qed (simp add: terrain_mk_def)
  from placesD [OF this, of "s\<lparr>rng := ?g0\<rparr>"] fresh
  have "for_each (\<lambda>(i, j). terrain_cell L world_id world i j) ?cs (s\<lparr>rng := ?g0\<rparr>) =
             (Inr (), placed_state s (fold (terrain_nxt L) ?cs ?g0) (n * n)
                        (placed (terrain_mk L world_id (mw_theme world)) (terrain_nxt L) ?cs
                           ?g0 (clock s) (reads s)))"
    by simp
  then show ?thesis
    by (simp add: generate_terrain_def gw Let_def py_range_def for_each_product n [symmetric]
          terrain_rows_def terrain_rng_def world_def)
qed

lemma generate_terrain_small:
  assumes w: "find (\<lambda>r. wr_id r = world_id) (worlds s) = Some row"
    and small: "wr_size row < 256"
  shows "generate_terrain L s world_id = (Inr (), s\<lparr>rng := random_seed L (wr_seed row)\<rparr>)"
proof -
  have 0: "nat (py_int (int_truediv_256 (wr_size row))) = 0"
    by (rule grid_size_small [OF small])
  show ?thesis
    using generate_terrain_placed [OF w 0 [symmetric], of L]
    by (simp add: terrain_rows_def terrain_rng_def 0 placed_state_def)
qed

lemma populate_world_placed:
  assumes w: "find (\<lambda>r. wr_id r = world_id) (worlds s) = Some row"
    and fresh: "fresh_ids s (population_size (wr_theme row))"
  shows "populate_world L s world_id =
           (Inr (), placed_state s (population_rng L row) (population_size (wr_theme row))
                      (population_rows L world_id row (clock s) (reads s)))"
proof -
  define world where "world = loaded_world s world_id row"
  have gw: "get_world s world_id = Some world"
    unfolding world_def by (rule get_world_loaded [OF w])
  have th: "mw_theme world = wr_theme row" and sz: "mw_size world = wr_size row"
    and sd: "mw_seed world = wr_seed row"
    by (simp_all add: world_def)
  let ?g0 = "random_seed L (wr_seed row)"
  let ?t = "tree_count (wr_theme row)"
  let ?trees = "if mw_theme world \<notin> set [''space'', ''underwater'']
                then for_each (place_tree L world_id world) (py_range 15) else skip"
  have B: "places (worlds s) (for_each (place_building L world_id world) (py_range 8)) 8
             (fold (xz_nxt L (wr_size row)) [0..<8]) (building_rows L world_id row)"
    using places_xz_loop [where body = "place_building L world_id world" and L = L
        and wsize = "wr_size row" and world_id = world_id and otype = "''building''"
        and oname = "\<lambda>i. wr_theme row @ ''_building_'' @ str_nat i" and y = 20
        and props = "[(''scale'', PNum 20)]" and scale = 20
        and color = "dict_get THEME_COLORS (wr_theme row) ''#FFFFFF''"
        and cs = "[0..<8]", OF _ _ _ w]
    by (simp add: place_building_def th sz OBJECT_TYPES_def py_range_def building_rows_def)
  have T: "places (worlds s) ?trees ?t
             (fold (xz_nxt L (wr_size row)) [0..<?t])
             (\<lambda>g clk k. if ?t = 0 then [] else tree_rows L world_id row g clk k)"
  proof (cases "wr_theme row \<in> set [''space'', ''underwater'']")
    case True
    then show ?thesis
      using places_skip [of "worlds s"] by (simp add: th tree_count_def id_def)
  next
    case False
    then show ?thesis
      using places_xz_loop [where body = "place_tree L world_id world" and L = L
        and wsize = "wr_size row" and world_id = world_id and otype = "''tree''"
        and oname = "\<lambda>i. ''tree_'' @ str_nat i" and y = 5
        and props = "[(''scale'', PNum 5)]" and scale = 5
        and color = "dict_get THEME_COLORS (wr_theme row) ''#FFFFFF''"
        and cs = "[0..<15]", OF _ _ _ w]
      by (simp add: place_tree_def th sz OBJECT_TYPES_def py_range_def tree_rows_def
            tree_count_def)
  qed
  have Li: "places (worlds s) (for_each (place_light L world_id world) (py_range 4)) 4
             (fold (xz_nxt L (wr_size row)) [0..<4]) (light_rows L world_id row)"
    using places_xz_loop [where body = "place_light L world_id world" and L = L
        and wsize = "wr_size row" and world_id = world_id and otype = "''light''"
        and oname = "\<lambda>i. ''light_'' @ str_nat i" and y = 100
        and props = "[(''scale'', PNum 2), (''color'', PStr ''#FFFF00'')]" and scale = 2
        and color = "''#FFFF00''"
        and cs = "[0..<4]", OF _ _ _ w]
    by (simp add: place_light_def th sz OBJECT_TYPES_def py_range_def light_rows_def)
  have S: "places (worlds s) (place_special L world_id world) (special_count (wr_theme row))
             (\<lambda>g. g) (\<lambda>g clk k. special_rows world_id (wr_theme row) (obj_id_of (clk k)))"
    by (rule places_special [OF w th])
  note all = places_and_then [OF B places_and_then [OF T places_and_then [OF Li S]]]
  from placesD [OF all, of "s\<lparr>rng := ?g0\<rparr>"] fresh
  show ?thesis
    by (simp add: populate_world_def gw sd population_size_def population_rows_def
          population_rng_def Let_def add.assoc)
qed

subsection \<open>The rows they place\<close>


lemma placed_all:
  "(\<And>c g oid. c \<in> set cs \<Longrightarrow> P (mk c g oid)) \<Longrightarrow> \<forall>r \<in> set (placed mk nxt cs g clk n). P r"
  by (induction cs arbitrary: g n) auto

lemma placed_strip:
  assumes "\<And>c g oid oid'. f (mk c g oid) = f' (mk' c g oid')"
  shows "map f (placed mk nxt cs g clk n) = map f' (placed mk' nxt cs g clk' n')"
  using assms by (induction cs arbitrary: g n n') auto

lemma filter_all: "\<forall>x \<in> set xs. P x \<Longrightarrow> filter P xs = xs"
  by (induction xs) auto

lemma filter_placed:
  assumes "\<And>c g oid. P (mk c g oid) = b"
  shows "filter P (placed mk nxt cs g clk n) = (if b then placed mk nxt cs g clk n else [])"
  using assms by (induction cs arbitrary: g n) auto

lemma length_terrain_rows:
  "length (terrain_rows L world_id row clk k) =
     nat (py_int (int_truediv_256 (wr_size row))) * nat (py_int (int_truediv_256 (wr_size row)))"
  by (simp add: terrain_rows_def Let_def)

lemma terrain_rows_world:
  "\<forall>r \<in> set (terrain_rows L world_id row clk k). or_world_id r = world_id \<and> or_type r = ''terrain''"
  unfolding terrain_rows_def Let_def
  by (rule placed_all) (simp add: terrain_mk_def)


lemma terrain_rows_strip:
  assumes "wr_theme row = wr_theme row'" "wr_seed row = wr_seed row'" "wr_size row = wr_size row'"
  shows "map row_to_object (map (\<lambda>r. r\<lparr>or_id := []\<rparr>) (terrain_rows L world_id row clk k)) =
         map row_to_object (map (\<lambda>r. r\<lparr>or_id := []\<rparr>) (terrain_rows L world_id' row' clk' k'))"
  unfolding terrain_rows_def Let_def assms map_map
  by (rule placed_strip) (simp add: terrain_mk_def placed_row_def row_to_object_def)

lemma terrain_rows_ids:
  "map or_id (terrain_rows L world_id row (clock s) (reads s)) =
     upcoming_ids s (nat (py_int (int_truediv_256 (wr_size row))) *
                     nat (py_int (int_truediv_256 (wr_size row))))"
  unfolding terrain_rows_def Let_def
  using placed_ids [where mk = "terrain_mk L world_id (wr_theme row)" and s = s
      and cs = "List.product [0..<nat (py_int (int_truediv_256 (wr_size row)))]
                             [0..<nat (py_int (int_truediv_256 (wr_size row)))]"]
  by (simp add: terrain_mk_def)

lemma row_to_object_strip:
  "(row_to_object r)\<lparr>obj_id := []\<rparr> = row_to_object (r\<lparr>or_id := []\<rparr>)"
  by (simp add: row_to_object_def)

lemma get_world_after_terrain:
  assumes w: "find (\<lambda>r. wr_id r = world_id) (worlds s) = Some row"
    and new: "filter (\<lambda>r. or_world_id r = world_id) (world_objects s) = []"
  shows "get_world (placed_state s g m (terrain_rows L world_id row clk k)) world_id =
           Some (loaded_world (placed_state s g m (terrain_rows L world_id row clk k)) world_id row) \<and>
         mw_objects (loaded_world (placed_state s g m (terrain_rows L world_id row clk k))
                       world_id row) =
           map row_to_object (terrain_rows L world_id row clk k)"
proof -
  have "filter (\<lambda>r. or_world_id r = world_id) (terrain_rows L world_id row clk k) =
          terrain_rows L world_id row clk k"
    using terrain_rows_world [of L world_id row clk k] by (intro filter_all) simp
  then show ?thesis
    using w new by (simp add: get_world_loaded)
qed

lemma filter_building_rows:
  "filter (\<lambda>r. f (or_type r) (or_world_id r)) (building_rows L world_id row g clk k) =
     (if f ''building'' world_id then building_rows L world_id row g clk k else [])"
  unfolding building_rows_def by (rule filter_placed) (simp add: xz_mk_def)

lemma filter_tree_rows:
  "filter (\<lambda>r. f (or_type r) (or_world_id r)) (tree_rows L world_id row g clk k) =
     (if f ''tree'' world_id then tree_rows L world_id row g clk k else [])"
  unfolding tree_rows_def by (rule filter_placed) (simp add: xz_mk_def)

lemma filter_light_rows:
  "filter (\<lambda>r. f (or_type r) (or_world_id r)) (light_rows L world_id row g clk k) =
     (if f ''light'' world_id then light_rows L world_id row g clk k else [])"
  unfolding light_rows_def by (rule filter_placed) (simp add: xz_mk_def)

lemma length_xz_rows [simp]:
  "length (building_rows L world_id row g clk k) = 8"
  "length (tree_rows L world_id row g clk k) = 15"
  "length (light_rows L world_id row g clk k) = 4"
  by (simp_all add: building_rows_def tree_rows_def light_rows_def)

lemma length_special_rows [simp]:
  "length (special_rows world_id theme oid) = special_count theme"
  by (simp add: special_rows_def special_count_def)

lemma length_population_rows:
  "length (population_rows L world_id row clk k) = population_size (wr_theme row)"
  by (simp add: population_rows_def population_size_def Let_def tree_count_def)

lemma population_rows_world:
  "filter (\<lambda>r. or_world_id r = world_id) (population_rows L world_id row clk k) =
     population_rows L world_id row clk k"
  by (simp add: population_rows_def Let_def special_rows_def
        filter_building_rows [where f = "\<lambda>t w. w = world_id"]
        filter_tree_rows [where f = "\<lambda>t w. w = world_id"]
        filter_light_rows [where f = "\<lambda>t w. w = world_id"])

lemma population_rows_buildings:
  "length (filter (\<lambda>r. or_type r = ''building'') (population_rows L world_id row clk k)) = 8"
  by (simp add: population_rows_def Let_def special_rows_def
        filter_building_rows [where f = "\<lambda>t w. t = ''building''"]
        filter_tree_rows [where f = "\<lambda>t w. t = ''building''"]
        filter_light_rows [where f = "\<lambda>t w. t = ''building''"])

lemma population_rows_trees:
  "length (filter (\<lambda>r. or_type r = ''tree'') (population_rows L world_id row clk k)) =
     (if wr_theme row \<in> set [''space'', ''underwater''] then 0 else 15)"
  by (simp add: population_rows_def Let_def special_rows_def tree_count_def
        filter_building_rows [where f = "\<lambda>t w. t = ''tree''"]
        filter_tree_rows [where f = "\<lambda>t w. t = ''tree''"]
        filter_light_rows [where f = "\<lambda>t w. t = ''tree''"])

lemma population_rows_lights:
  "length (filter (\<lambda>r. or_type r = ''light'') (population_rows L world_id row clk k)) = 4"
  by (simp add: population_rows_def Let_def special_rows_def
        filter_building_rows [where f = "\<lambda>t w. t = ''light''"]
        filter_tree_rows [where f = "\<lambda>t w. t = ''light''"]
        filter_light_rows [where f = "\<lambda>t w. t = ''light''"])

lemma population_rows_special:
  "filter (\<lambda>r. or_type r \<notin> set [''building'', ''tree'', ''light''])
     (population_rows L world_id row clk k) =
   special_rows world_id (wr_theme row)
     (obj_id_of (clk (k + 8 + tree_count (wr_theme row) + 4)))"
  by (simp add: population_rows_def Let_def special_rows_def
        filter_building_rows [where f = "\<lambda>t w. t \<noteq> ''building'' \<and> t \<noteq> ''tree'' \<and> t \<noteq> ''light''"]
        filter_tree_rows [where f = "\<lambda>t w. t \<noteq> ''building'' \<and> t \<noteq> ''tree'' \<and> t \<noteq> ''light''"]
        filter_light_rows [where f = "\<lambda>t w. t \<noteq> ''building'' \<and> t \<noteq> ''tree'' \<and> t \<noteq> ''light''"])

section \<open>The concrete runs\<close>

lemma millis_sec_clock:
  assumes "k < 2 ^ 40"
  shows "millis (sec_clock k) = 1000 * int k"
proof -
  have "int k < 2 ^ 40"
    using assms by (metis of_nat_less_iff of_nat_numeral of_nat_power)
  then have "\<bar>1000 * int k\<bar> < 2 ^ 53"
    by simp
  from float_round_int [OF this]
  have "float_mul (sec_clock k) 1000 = real_of_int (1000 * int k)"
    by (simp add: float_mul_def sec_clock_def mult.commute)
  then show ?thesis
    unfolding millis_def by (simp only: py_int_of_int)
qed

lemma obj_id_of_sec_clock:
  "k < 2 ^ 40 \<Longrightarrow> obj_id_of (sec_clock k) = ''obj_'' @ str_nat (1000 * k)"
  by (simp add: obj_id_of_def str_int_def millis_sec_clock nat_mult_distrib)

lemma world_id_of_sec_clock:
  "k < 2 ^ 40 \<Longrightarrow> world_id_of (sec_clock k) = ''world_'' @ str_nat (1000 * k)"
  by (simp add: world_id_of_def str_int_def millis_sec_clock nat_mult_distrib)

lemma stuck_clock_simps:
  "k \<le> m \<Longrightarrow> stuck_clock m k = sec_clock k"
  "m \<le> k \<Longrightarrow> stuck_clock m k = sec_clock m"
  by (simp_all add: stuck_clock_def min_def)

lemma fresh_ids_sec_clock:
  "world_objects s = [] \<Longrightarrow> clock s = sec_clock \<Longrightarrow> reads s + n \<le> 2 ^ 40 \<Longrightarrow> fresh_ids s n"
  by (rule fresh_ids_empty) (simp_all add: inj_on_def millis_sec_clock)


lemma aurora_eq:
  assumes "fits_int64 wsize"
  shows "aurora clk wsize =
           \<lparr>worlds = [aurora_row clk wsize], world_objects = [], player_positions = [],
            rng = 0, clock = clk, reads = 1\<rparr>"
proof -
  have "create_world sample_library (new_builder 0 clk) ''Aurora'' ''arctic'' (Some 42) wsize =
          (Inr \<lparr>mw_id = world_id_of (clk 0), mw_name = ''Aurora'', mw_theme = ''arctic'',
                mw_seed = 42, mw_size = wsize, mw_objects = [],
                mw_created_at = PNum (clk 0), mw_description = ''''\<rparr>,
           \<lparr>worlds = [aurora_row clk wsize], world_objects = [], player_positions = [],
            rng = 0, clock = clk, reads = 1\<rparr>)"
    using create_world_ok [of "''arctic''" 42 wsize "new_builder 0 clk" sample_library "''Aurora''"]
      assms
    by (simp add: new_builder_def THEMES_def fits_int64_def aurora_row_def)
  then show ?thesis
    by (simp add: aurora_def)
qed

lemma aurora_simps:
  assumes "fits_int64 wsize"
  shows "worlds (aurora clk wsize) = [aurora_row clk wsize]"
    and "world_objects (aurora clk wsize) = []"
    and "player_positions (aurora clk wsize) = []"
    and "rng (aurora clk wsize) = 0"
    and "clock (aurora clk wsize) = clk"
    and "reads (aurora clk wsize) = 1"
  by (simp_all add: aurora_eq [OF assms])

lemma aurora_find:
  assumes "fits_int64 wsize"
  shows "find (\<lambda>r. wr_id r = world_id_of (clk 0)) (worlds (aurora clk wsize)) =
           Some (aurora_row clk wsize)"
  by (simp add: aurora_simps [OF assms] aurora_row_def)

lemma twin_worlds_eq:
  assumes "fits_int64 wsize" and "world_id_of (clk 0) \<noteq> world_id_of (clk 1)"
  shows "twin_worlds clk wsize =
           \<lparr>worlds = [aurora_row clk wsize, borealis_row clk wsize], world_objects = [],
            player_positions = [], rng = 0, clock = clk, reads = 2\<rparr>"
proof -
  have "create_world sample_library (aurora clk wsize) ''Borealis'' ''arctic'' (Some 42) wsize =
          (Inr \<lparr>mw_id = world_id_of (clk 1), mw_name = ''Borealis'', mw_theme = ''arctic'',
                mw_seed = 42, mw_size = wsize, mw_objects = [],
                mw_created_at = PNum (clk 1), mw_description = ''''\<rparr>,
           \<lparr>worlds = [aurora_row clk wsize, borealis_row clk wsize], world_objects = [],
            player_positions = [], rng = 0, clock = clk, reads = 2\<rparr>)"
    using create_world_ok [of "''arctic''" 42 wsize "aurora clk wsize" sample_library "''Borealis''"]
      assms
    by (simp add: aurora_eq THEMES_def fits_int64_def borealis_row_def aurora_row_def)
  then show ?thesis
    by (simp add: twin_worlds_def)
qed

lemma twin_worlds_find:
  assumes "fits_int64 wsize" and "world_id_of (clk 0) \<noteq> world_id_of (clk 1)"
  shows "find (\<lambda>r. wr_id r = world_id_of (clk 0)) (worlds (twin_worlds clk wsize)) =
           Some (aurora_row clk wsize)"
    and "find (\<lambda>r. wr_id r = world_id_of (clk 1)) (worlds (twin_worlds clk wsize)) =
           Some (borealis_row clk wsize)"
  using assms(2) by (simp_all add: twin_worlds_eq [OF assms] aurora_row_def borealis_row_def)

section \<open>Validation of the enums\<close>

text \<open>
  Claim C5. \<^verbatim>\<open>create_world\<close> with a theme outside the eight \<open>THEMES\<close> and
  \<^verbatim>\<open>add_object\<close> with a type outside the nine \<open>OBJECT_TYPES\<close> raise the
  \<^verbatim>\<open>ValueError\<close> of the enum (the spec's InvalidArgument) and leave the builder
  exactly as it was: no row in any table, no clock reading, no random draw.
\<close>

theorem invalid_enum_rejected_before_persistence:
  "(theme \<notin> set THEMES \<longrightarrow>
      create_world L s name theme seed wsize = (Inl (ValueError invalid_theme_msg), s)) \<and>
   (otype \<notin> set OBJECT_TYPES \<longrightarrow>
      add_object L s world_id otype oname x y z props = (Inl (ValueError invalid_type_msg), s)) \<and>
   length THEMES = 8 \<and> distinct THEMES \<and> length OBJECT_TYPES = 9 \<and> distinct OBJECT_TYPES"
  by (simp add: create_world_def add_object_def) (simp add: THEMES_def OBJECT_TYPES_def)

theorem invalid_enum_rejected_witness:
  "''medieval'' \<notin> set THEMES \<and>
   create_world sample_library (new_builder 7 sec_clock) ''Camelot'' ''medieval'' None 1024
     = (Inl (ValueError invalid_theme_msg), new_builder 7 sec_clock) \<and>
   ''spaceship'' \<notin> set OBJECT_TYPES \<and>
   add_object sample_library (new_builder 7 sec_clock) ''world_0'' ''spaceship'' ''Nostromo'' 1 2 3
       [(''scale'', PNum 4)]
     = (Inl (ValueError invalid_type_msg), new_builder 7 sec_clock)"
  using invalid_enum_rejected_before_persistence
          [of "''medieval''" sample_library "new_builder 7 sec_clock" "''Camelot''" None 1024
              "''spaceship''" "''world_0''" "''Nostromo''" 1 2 3 "[(''scale'', PNum 4)]"]
  by (simp add: THEMES_def OBJECT_TYPES_def)

text \<open>
  Claim C10. In \<^verbatim>\<open>add_object\<close> the type is checked before the world is looked up: a
  type outside \<open>OBJECT_TYPES\<close> gives the enum's \<^verbatim>\<open>ValueError\<close> in every state, also one
  that has no world of the given id, and that error is never the not-found error of
  any world id.
\<close>

theorem invalid_type_precedes_world_lookup:
  assumes "otype \<notin> set OBJECT_TYPES"
  shows "add_object L s world_id otype oname x y z props = (Inl (ValueError invalid_type_msg), s) \<and>
         ValueError invalid_type_msg \<noteq> ValueError (not_found_msg w)"
  using assms by (simp add: add_object_def invalid_type_msg_def not_found_msg_def)

theorem invalid_type_precedes_world_lookup_witness:
  "''spaceship'' \<notin> set OBJECT_TYPES \<and>
   get_world (new_builder (7::nat) sec_clock) ''world_404'' = None \<and>
   add_object sample_library (new_builder 7 sec_clock) ''world_404'' ''spaceship'' ''Nostromo'' 1 2 3 []
     = (Inl (ValueError invalid_type_msg), new_builder 7 sec_clock) \<and>
   ValueError invalid_type_msg \<noteq> ValueError (not_found_msg ''world_404'')"
proof -
  have h: "''spaceship'' \<notin> set OBJECT_TYPES"
    by (simp add: OBJECT_TYPES_def)
  have "get_world (new_builder (7::nat) sec_clock) ''world_404'' = None"
    by (simp add: get_world_def new_builder_def)
  with h invalid_type_precedes_world_lookup [OF h, of sample_library "new_builder 7 sec_clock"
        "''world_404''" "''Nostromo''" 1 2 3 "[]" "''world_404''"]
  show ?thesis by simp
qed

section \<open>The property bag of add_object\<close>

text \<open>
  Claim C7. When \<^verbatim>\<open>add_object\<close> returns an object, its world exists, its scale is the
  bag's \<open>scale\<close> or 1.0, its rotation the bag's \<open>rotation\<close> or 0.0, its color the bag's
  \<open>color\<close> or else the accent color of the world's theme in \<open>THEME_COLORS\<close>, white for
  a theme outside the table; its properties are the bag without the keys \<open>scale\<close>,
  \<open>rotation\<close> and \<open>color\<close>, every other key kept with its value and in order; and one
  row is stored, under the returned id and with the same properties.
\<close>

theorem add_object_extracts_reserved_keys:
  assumes "add_object L s world_id otype name x y z props = (Inr ob, s')"
  shows "\<exists>world row.
           get_world s world_id = Some world \<and>
           obj_scale ob = (case map_of props ''scale'' of None \<Rightarrow> PNum 1 | Some v \<Rightarrow> v) \<and>
           obj_rotation ob = (case map_of props ''rotation'' of None \<Rightarrow> PNum 0 | Some v \<Rightarrow> v) \<and>
           obj_color ob =
             (case map_of props ''color'' of
                None \<Rightarrow> PStr (case map_of THEME_COLORS (mw_theme world) of
                                None \<Rightarrow> ''#FFFFFF'' | Some c \<Rightarrow> c)
              | Some v \<Rightarrow> v) \<and>
           obj_properties ob =
             filter (\<lambda>(k, v). k \<noteq> ''scale'' \<and> k \<noteq> ''rotation'' \<and> k \<noteq> ''color'') props \<and>
           fst ` set (obj_properties ob) = fst ` set props - {''scale'', ''rotation'', ''color''} \<and>
           world_objects s' = world_objects s @ [row] \<and>
           or_id row = obj_id ob \<and>
           or_world_id row = world_id \<and>
           or_properties row = obj_properties ob"
proof -
  let ?rest = "filter (\<lambda>(k, v). k \<noteq> ''scale'' \<and> k \<noteq> ''rotation'' \<and> k \<noteq> ''color'') props"
  have keys: "fst ` set ?rest = fst ` set props - {''scale'', ''rotation'', ''color''}"
    by force
  from assms obtain world where gw: "get_world s world_id = Some world"
    by (auto simp: add_object_def split: option.splits if_splits)
  from assms gw obtain sc ro co where
    ob: "ob = \<lparr>obj_id = obj_id_of (clock s (reads s)), obj_type = otype, obj_name = name,
               obj_x = x, obj_y = y, obj_z = z,
               obj_scale = dict_get props ''scale'' (PNum 1),
               obj_rotation = dict_get props ''rotation'' (PNum 0),
               obj_color = dict_get props ''color''
                             (PStr (dict_get THEME_COLORS (mw_theme world) ''#FFFFFF'')),
               obj_properties = ?rest\<rparr>"
    and s': "world_objects s' = world_objects s @
              [\<lparr>or_id = obj_id_of (clock s (reads s)), or_world_id = world_id, or_type = otype,
                or_name = name, or_x = x, or_y = y, or_z = z, or_scale = sc, or_rotation = ro,
                or_color = co, or_properties = ?rest\<rparr>]"
    by (auto simp: add_object_def now_def insert_object_def Let_def
          split: sum.splits if_splits)
  show ?thesis
    apply (rule exI [of _ world])
    apply (rule exI [of _ "\<lparr>or_id = obj_id_of (clock s (reads s)), or_world_id = world_id,
              or_type = otype, or_name = name, or_x = x, or_y = y, or_z = z, or_scale = sc,
              or_rotation = ro, or_color = co, or_properties = ?rest\<rparr>"])
    apply (intro conjI)
             apply (rule gw)
            apply (simp add: ob dict_get_def)
           apply (simp add: ob dict_get_def)
          apply (simp add: ob dict_get_def)
         apply (simp add: ob)
        apply (simp only: ob WorldObject.simps keys)
       apply (rule s')
      apply (simp add: ob)
     apply simp
    apply (simp add: ob)
    done
qed

theorem add_object_extracts_reserved_keys_witness:
  "add_object sample_library (aurora sec_clock 512) ''world_0'' ''tree'' ''oak'' 1 2 3
       [(''scale'', PNum 3), (''age'', PNum 80),
        (''tags'', PDict [(''kind'', PStr ''old''), (''tall'', PBool True)])] =
     (Inr \<lparr>obj_id = ''obj_1000'', obj_type = ''tree'', obj_name = ''oak'', obj_x = 1, obj_y = 2,
           obj_z = 3, obj_scale = PNum 3, obj_rotation = PNum 0, obj_color = PStr ''#F0F8FF'',
           obj_properties =
             [(''age'', PNum 80),
              (''tags'', PDict [(''kind'', PStr ''old''), (''tall'', PBool True)])]\<rparr>,
      placed_state (aurora sec_clock 512) 0 1
        [\<lparr>or_id = ''obj_1000'', or_world_id = ''world_0'', or_type = ''tree'', or_name = ''oak'',
          or_x = 1, or_y = 2, or_z = 3, or_scale = PNum 3, or_rotation = PNum 0,
          or_color = PStr ''#F0F8FF'',
          or_properties =
            [(''age'', PNum 80),
             (''tags'', PDict [(''kind'', PStr ''old''), (''tall'', PBool True)])]\<rparr>]) \<and>
   (\<exists>world row.
      get_world (aurora sec_clock 512) ''world_0'' = Some world \<and>
      obj_scale \<lparr>obj_id = ''obj_1000'', obj_type = ''tree'', obj_name = ''oak'', obj_x = 1, obj_y = 2,
           obj_z = 3, obj_scale = PNum 3, obj_rotation = PNum 0, obj_color = PStr ''#F0F8FF'',
           obj_properties =
             [(''age'', PNum 80),
              (''tags'', PDict [(''kind'', PStr ''old''), (''tall'', PBool True)])]\<rparr> = PNum 3 \<and>
      mw_theme world = ''arctic'' \<and>
      world_objects (placed_state (aurora sec_clock 512) 0 1
        [\<lparr>or_id = ''obj_1000'', or_world_id = ''world_0'', or_type = ''tree'', or_name = ''oak'',
          or_x = 1, or_y = 2, or_z = 3, or_scale = PNum 3, or_rotation = PNum 0,
          or_color = PStr ''#F0F8FF'',
          or_properties =
            [(''age'', PNum 80),
             (''tags'', PDict [(''kind'', PStr ''old''), (''tall'', PBool True)])]\<rparr>])
        = world_objects (aurora sec_clock 512) @ [row] \<and>
      or_properties row =
        [(''age'', PNum 80),
         (''tags'', PDict [(''kind'', PStr ''old''), (''tall'', PBool True)])])"
proof -
  let ?S = "aurora sec_clock 512"
  let ?props = "[(''scale'', PNum 3), (''age'', PNum 80),
                 (''tags'', PDict [(''kind'', PStr ''old''), (''tall'', PBool True)])]"
  have f: "fits_int64 512"
    by (simp add: fits_int64_def)
  note S = aurora_simps [OF f, of sec_clock]
  have w: "find (\<lambda>r. wr_id r = ''world_0'') (worlds ?S) = Some (aurora_row sec_clock 512)"
    using aurora_find [OF f, of sec_clock] by (simp add: world_id_of_sec_clock)
  have id1: "obj_id_of (clock ?S (reads ?S)) = ''obj_1000''"
    by (simp add: S obj_id_of_sec_clock str_nat.simps digit_char_def)
  have run: "add_object sample_library ?S ''world_0'' ''tree'' ''oak'' 1 2 3 ?props =
     (Inr \<lparr>obj_id = ''obj_1000'', obj_type = ''tree'', obj_name = ''oak'', obj_x = 1, obj_y = 2,
           obj_z = 3, obj_scale = PNum 3, obj_rotation = PNum 0, obj_color = PStr ''#F0F8FF'',
           obj_properties =
             [(''age'', PNum 80),
              (''tags'', PDict [(''kind'', PStr ''old''), (''tall'', PBool True)])]\<rparr>,
      placed_state ?S 0 1
        [\<lparr>or_id = ''obj_1000'', or_world_id = ''world_0'', or_type = ''tree'', or_name = ''oak'',
          or_x = 1, or_y = 2, or_z = 3, or_scale = PNum 3, or_rotation = PNum 0,
          or_color = PStr ''#F0F8FF'',
          or_properties =
            [(''age'', PNum 80),
             (''tags'', PDict [(''kind'', PStr ''old''), (''tall'', PBool True)])]\<rparr>])"
    using add_object_placed [where L = sample_library and s = ?S and world_id = "''world_0''"
        and otype = "''tree''" and oname = "''oak''" and x = 1 and y = 2 and z = 3
        and props = ?props and sc = "PNum 3" and ro = "PNum 0" and co = "PStr ''#F0F8FF''", OF _ w]
    unfolding id1
    by (simp add: OBJECT_TYPES_def dict_get_def THEME_COLORS_def aurora_row_def S)
  from add_object_extracts_reserved_keys [OF run]
  obtain world row where
    "get_world ?S ''world_0'' = Some world"
    "world_objects (placed_state ?S 0 1
        [\<lparr>or_id = ''obj_1000'', or_world_id = ''world_0'', or_type = ''tree'', or_name = ''oak'',
          or_x = 1, or_y = 2, or_z = 3, or_scale = PNum 3, or_rotation = PNum 0,
          or_color = PStr ''#F0F8FF'',
          or_properties =
            [(''age'', PNum 80),
             (''tags'', PDict [(''kind'', PStr ''old''), (''tall'', PBool True)])]\<rparr>])
       = world_objects ?S @ [row]"
    "or_properties row =
        [(''age'', PNum 80),
         (''tags'', PDict [(''kind'', PStr ''old''), (''tall'', PBool True)])]"
    by auto
  moreover from this(1) have "mw_theme world = ''arctic''"
    by (auto simp: get_world_found [OF w] aurora_row_def)
  ultimately show ?thesis
    using run by auto
qed

section \<open>Object ids\<close>

lemma object_ids_unique_rng [simp]: "object_ids_unique (s\<lparr>rng := g\<rparr>) = object_ids_unique s"
  by (simp add: object_ids_unique_def)

lemma add_object_unique:
  "object_ids_unique s \<Longrightarrow> object_ids_unique (snd (add_object L s world_id otype name x y z props))"
  by (auto simp: add_object_def object_ids_unique_def now_def insert_object_def Let_def
        split: option.splits sum.splits)

lemma for_each_unique:
  assumes "\<And>c s. object_ids_unique s \<Longrightarrow> object_ids_unique (snd (body c s))"
    and "object_ids_unique s"
  shows "object_ids_unique (snd (for_each body cs s))"
  using assms(2)
proof (induction cs arbitrary: s)
  case Nil
  then show ?case by simp
next
  case (Cons c cs)
  from assms(1) [OF Cons.prems, of c] Cons.IH [of "snd (body c s)"]
  show ?case
    by (cases "body c s") (auto split: sum.splits)
qed

lemma and_then_unique:
  assumes "\<And>s. object_ids_unique s \<Longrightarrow> object_ids_unique (snd (a s))"
    and "\<And>s. object_ids_unique s \<Longrightarrow> object_ids_unique (snd (b s))"
    and "object_ids_unique s"
  shows "object_ids_unique (snd (and_then a b s))"
  using assms(1) [OF assms(3)] assms(2) [of "snd (a s)"]
  by (cases "a s") (auto simp: and_then_def split: sum.splits)

lemma terrain_cell_unique:
  "object_ids_unique s \<Longrightarrow> object_ids_unique (snd (terrain_cell L world_id world i j s))"
  by (simp add: terrain_cell_def Let_def add_object_unique split: prod.splits)

lemma place_building_unique:
  "object_ids_unique s \<Longrightarrow> object_ids_unique (snd (place_building L world_id world i s))"
  by (simp add: place_building_def Let_def add_object_unique split: prod.splits)

lemma place_tree_unique:
  "object_ids_unique s \<Longrightarrow> object_ids_unique (snd (place_tree L world_id world i s))"
  by (simp add: place_tree_def Let_def add_object_unique split: prod.splits)

lemma place_light_unique:
  "object_ids_unique s \<Longrightarrow> object_ids_unique (snd (place_light L world_id world i s))"
  by (simp add: place_light_def Let_def add_object_unique split: prod.splits)

lemma place_special_unique:
  "object_ids_unique s \<Longrightarrow> object_ids_unique (snd (place_special L world_id world s))"
  by (simp add: place_special_def add_object_unique)

lemma generate_terrain_unique:
  assumes "object_ids_unique s"
  shows "object_ids_unique (snd (generate_terrain L s world_id))"
proof (cases "get_world s world_id")
  case None
  with assms show ?thesis by (simp add: generate_terrain_def)
next
  case (Some world)
  have "object_ids_unique (snd (for_each (\<lambda>i. for_each (terrain_cell L world_id world i) js) is s'))"
    if "object_ids_unique s'" for s' :: "'a builder" and js "is"
    using that by (intro for_each_unique terrain_cell_unique)
  with assms Some show ?thesis
    by (simp add: generate_terrain_def Let_def)
qed

lemma populate_world_unique:
  assumes "object_ids_unique s"
  shows "object_ids_unique (snd (populate_world L s world_id))"
proof (cases "get_world s world_id")
  case None
  with assms show ?thesis by (simp add: populate_world_def)
next
  case (Some world)
  have trees: "object_ids_unique
                 (snd ((if mw_theme world \<notin> set [''space'', ''underwater'']
                        then for_each (place_tree L world_id world) (py_range 15)
                        else skip) s'))"
    if "object_ids_unique s'" for s' :: "'a builder"
    using that by (auto simp: skip_def intro!: for_each_unique place_tree_unique)
  have "object_ids_unique (snd (populate_world L s world_id))"
    unfolding populate_world_def Some option.case
    by (intro and_then_unique for_each_unique place_building_unique place_light_unique
          place_special_unique trees) (simp_all add: assms)
  then show ?thesis .
qed

lemma create_world_objects [simp]:
  "world_objects (snd (create_world L s name theme seed wsize)) = world_objects s"
  by (auto simp: create_world_def now_def Let_def split: option.splits prod.splits sum.splits)

lemma teleport_objects [simp]:
  "world_objects (snd (teleport s world_id player_id x y z)) = world_objects s"
  by (auto simp: teleport_def now_def Let_def split: sum.splits error.splits)

lemma run_call_unique:
  "object_ids_unique s \<Longrightarrow> object_ids_unique (run_call L c s)"
  by (cases c)
     (simp_all add: add_object_unique generate_terrain_unique populate_world_unique
        object_ids_unique_def [of "snd (create_world _ _ _ _ _ _)"]
        object_ids_unique_def [of "snd (teleport _ _ _ _ _ _)"]
        object_ids_unique_def [of s])

lemma run_calls_unique:
  "object_ids_unique s \<Longrightarrow> object_ids_unique (run_calls L cs s)"
  unfolding run_calls_def
  by (induction cs arbitrary: s) (simp_all add: run_call_unique)

text \<open>
  Claim C8. The id of an object is generated inside \<^verbatim>\<open>add_object\<close> from the clock, and
  no caller argument reaches it. The primary key of \<^verbatim>\<open>world_objects\<close> refuses an id that
  is already stored (the call then raises \<^verbatim>\<open>IntegrityError\<close>), so from a database
  whose object ids are pairwise distinct, as every database under that key is and a
  new one in particular, any sequence of calls of \<^verbatim>\<open>create_world\<close>, \<^verbatim>\<open>add_object\<close>,
  \<^verbatim>\<open>generate_terrain\<close>, \<^verbatim>\<open>populate_world\<close> and \<^verbatim>\<open>teleport\<close>, returning or raising,
  leaves the stored ids pairwise distinct, and the objects of every world that
  \<^verbatim>\<open>get_world\<close> loads have pairwise distinct ids.
\<close>

theorem object_ids_distinct:
  assumes "distinct (map or_id (world_objects s))"
  shows "distinct (map or_id (world_objects (run_calls L cs s))) \<and>
         (case get_world (run_calls L cs s) world_id of
            None \<Rightarrow> True
          | Some w \<Rightarrow> distinct (map obj_id (mw_objects w))) \<and>
         (case add_object L s wid otype name x y z props of
            (Inr ob, s') \<Rightarrow> obj_id ob = obj_id_of (clock s (reads s))
          | (Inl e, s') \<Rightarrow> True)"
proof -
  let ?s = "run_calls L cs s"
  have u: "distinct (map or_id (world_objects ?s))"
    using run_calls_unique [of s L cs] assms by (simp add: object_ids_unique_def)
  have "distinct (map or_id (filter (\<lambda>r. or_world_id r = world_id) (world_objects ?s)))"
    using u by (simp add: distinct_map_filter)
  moreover have "obj_id \<circ> row_to_object = or_id"
    by (auto simp: row_to_object_def)
  ultimately have "case get_world ?s world_id of
                     None \<Rightarrow> True
                   | Some w \<Rightarrow> distinct (map obj_id (mw_objects w))"
    by (auto simp: get_world_def split: option.splits)
  moreover have "case add_object L s wid otype name x y z props of
                   (Inr ob, s') \<Rightarrow> obj_id ob = obj_id_of (clock s (reads s))
                 | (Inl e, s') \<Rightarrow> True"
    using add_object_id [of L s wid otype name x y z props]
    by (auto split: prod.splits sum.splits)
  ultimately show ?thesis
    using u by simp
qed

theorem object_ids_distinct_witness:
  "distinct (map or_id (world_objects (new_builder (0::nat) (stuck_clock 3)))) \<and>
   distinct (map or_id (world_objects
     (run_calls sample_library
        [CreateWorld ''Aurora'' ''arctic'' (Some 42) 512,
         AddObject ''world_0'' ''tree'' ''oak'' 1 2 3 [(''age'', PNum 80)],
         GenerateTerrain ''world_0'',
         PopulateWorld ''world_0'']
        (new_builder 0 (stuck_clock 3))))) \<and>
   (case get_world
           (run_calls sample_library
              [CreateWorld ''Aurora'' ''arctic'' (Some 42) 512,
               AddObject ''world_0'' ''tree'' ''oak'' 1 2 3 [(''age'', PNum 80)],
               GenerateTerrain ''world_0'',
               PopulateWorld ''world_0'']
              (new_builder 0 (stuck_clock 3))) ''world_0'' of
      None \<Rightarrow> True
    | Some w \<Rightarrow> distinct (map obj_id (mw_objects w))) \<and>
   (case add_object sample_library (new_builder 0 (stuck_clock 3)) ''world_0'' ''tree'' ''oak''
           1 2 3 [(''age'', PNum 80)] of
      (Inr ob, s') \<Rightarrow> obj_id ob = obj_id_of (clock (new_builder (0::nat) (stuck_clock 3))
                                             (reads (new_builder (0::nat) (stuck_clock 3))))
    | (Inl e, s') \<Rightarrow> True)"
proof -
  have h: "distinct (map or_id (world_objects (new_builder (0::nat) (stuck_clock 3))))"
    by (simp add: new_builder_def)
  note t = object_ids_distinct [OF h, where L = sample_library and world_id = "''world_0''"
      and wid = "''world_0''" and otype = "''tree''" and name = "''oak''" and x = 1 and y = 2
      and z = 3 and props = "[(''age'', PNum 80)]"
      and cs = "[CreateWorld ''Aurora'' ''arctic'' (Some 42) 512,
                 AddObject ''world_0'' ''tree'' ''oak'' 1 2 3 [(''age'', PNum 80)],
                 GenerateTerrain ''world_0'',
                 PopulateWorld ''world_0'']"]
  show ?thesis
    by (rule conjI [OF h t])
qed

section \<open>Terrain generation\<close>




text \<open>
  Claim C2, as amended. Take two stored worlds with the same theme, seed and size that
  have no objects yet, in one database or in two. When the ids the clock yields for
  the calls of \<^verbatim>\<open>add_object\<close> are new in both runs, \<^verbatim>\<open>generate_terrain\<close> returns without
  error for both, and the two worlds then hold the same number of objects, equal one
  by one in every field but the id: type, name, coordinates, scale, rotation, color
  and properties. The heights agree because both runs reseed the generator with the
  same seed before the first draw; the number of objects is the square of the grid
  size. As stated the claim fails when one of the runs draws the same id twice: that
  run stops with an \<^verbatim>\<open>IntegrityError\<close> and leaves fewer objects.
\<close>

theorem terrain_deterministic:
  assumes w1: "find (\<lambda>r. wr_id r = wid1) (worlds s1) = Some row1"
    and w2: "find (\<lambda>r. wr_id r = wid2) (worlds s2) = Some row2"
    and same: "wr_theme row1 = wr_theme row2" "wr_seed row1 = wr_seed row2"
              "wr_size row1 = wr_size row2"
    and new1: "filter (\<lambda>r. or_world_id r = wid1) (world_objects s1) = []"
    and new2: "filter (\<lambda>r. or_world_id r = wid2) (world_objects s2) = []"
    and n: "n = nat (py_int (int_truediv_256 (wr_size row1)))"
    and fresh1: "fresh_ids s1 (n * n)"
    and fresh2: "fresh_ids s2 (n * n)"
  shows "\<exists>s1' s2' W1 W2.
           generate_terrain L s1 wid1 = (Inr (), s1') \<and>
           generate_terrain L s2 wid2 = (Inr (), s2') \<and>
           get_world s1' wid1 = Some W1 \<and>
           get_world s2' wid2 = Some W2 \<and>
           length (mw_objects W1) = n * n \<and>
           length (mw_objects W1) = length (mw_objects W2) \<and>
           map (\<lambda>ob. ob\<lparr>obj_id := []\<rparr>) (mw_objects W1) =
             map (\<lambda>ob. ob\<lparr>obj_id := []\<rparr>) (mw_objects W2)"
proof -
  let ?rows1 = "terrain_rows L wid1 row1 (clock s1) (reads s1)"
  let ?rows2 = "terrain_rows L wid2 row2 (clock s2) (reads s2)"
  let ?s1' = "placed_state s1 (terrain_rng L row1) (n * n) ?rows1"
  let ?s2' = "placed_state s2 (terrain_rng L row2) (n * n) ?rows2"
  let ?W1 = "loaded_world ?s1' wid1 row1"
  let ?W2 = "loaded_world ?s2' wid2 row2"
  have n2: "n = nat (py_int (int_truediv_256 (wr_size row2)))"
    using n same by simp
  have r1: "generate_terrain L s1 wid1 = (Inr (), ?s1')"
    by (rule generate_terrain_placed [OF w1 n fresh1])
  have r2: "generate_terrain L s2 wid2 = (Inr (), ?s2')"
    by (rule generate_terrain_placed [OF w2 n2 fresh2])
  note g1 = get_world_after_terrain [OF w1 new1, of "terrain_rng L row1" "n * n" L "clock s1" "reads s1"]
  note g2 = get_world_after_terrain [OF w2 new2, of "terrain_rng L row2" "n * n" L "clock s2" "reads s2"]
  have m1: "mw_objects ?W1 = map row_to_object ?rows1"
    by (rule g1 [THEN conjunct2])
  have m2: "mw_objects ?W2 = map row_to_object ?rows2"
    by (rule g2 [THEN conjunct2])
  have eq: "map (\<lambda>ob. ob\<lparr>obj_id := []\<rparr>) (mw_objects ?W1) =
            map (\<lambda>ob. ob\<lparr>obj_id := []\<rparr>) (mw_objects ?W2)"
    unfolding m1 m2
    using terrain_rows_strip [OF same, of L wid1 "clock s1" "reads s1" wid2 "clock s2" "reads s2"]
    by (simp add: row_to_object_strip comp_def)
  have len: "length (mw_objects ?W1) = length (mw_objects ?W2)"
    unfolding m1 m2 by (simp add: length_terrain_rows same)
  have len1: "length (mw_objects ?W1) = n * n"
    unfolding m1 by (simp add: length_terrain_rows n [symmetric])
  show ?thesis
    using r1 r2 g1 g2 eq len len1 by blast
qed

theorem terrain_deterministic_witness:
  "find (\<lambda>r. wr_id r = ''world_0'') (worlds (twin_worlds sec_clock 512)) =
     Some (aurora_row sec_clock 512) \<and>
   find (\<lambda>r. wr_id r = ''world_1000'')
     (worlds (snd (generate_terrain sample_library (twin_worlds sec_clock 512) ''world_0''))) =
     Some (borealis_row sec_clock 512) \<and>
   wr_theme (aurora_row sec_clock 512) = wr_theme (borealis_row sec_clock 512) \<and>
   wr_seed (aurora_row sec_clock 512) = wr_seed (borealis_row sec_clock 512) \<and>
   wr_size (aurora_row sec_clock 512) = wr_size (borealis_row sec_clock 512) \<and>
   filter (\<lambda>r. or_world_id r = ''world_0'') (world_objects (twin_worlds sec_clock 512)) = [] \<and>
   filter (\<lambda>r. or_world_id r = ''world_1000'')
     (world_objects (snd (generate_terrain sample_library (twin_worlds sec_clock 512) ''world_0'')))
     = [] \<and>
   (2::nat) = nat (py_int (int_truediv_256 (wr_size (aurora_row sec_clock 512)))) \<and>
   fresh_ids (twin_worlds sec_clock 512) (2 * 2) \<and>
   fresh_ids (snd (generate_terrain sample_library (twin_worlds sec_clock 512) ''world_0'')) (2 * 2) \<and>
   (\<exists>s1' s2' W1 W2.
      generate_terrain sample_library (twin_worlds sec_clock 512) ''world_0'' = (Inr (), s1') \<and>
      generate_terrain sample_library
        (snd (generate_terrain sample_library (twin_worlds sec_clock 512) ''world_0'')) ''world_1000''
        = (Inr (), s2') \<and>
      get_world s1' ''world_0'' = Some W1 \<and>
      get_world s2' ''world_1000'' = Some W2 \<and>
      length (mw_objects W1) = 2 * 2 \<and>
      length (mw_objects W1) = length (mw_objects W2) \<and>
      map (\<lambda>ob. ob\<lparr>obj_id := []\<rparr>) (mw_objects W1) =
        map (\<lambda>ob. ob\<lparr>obj_id := []\<rparr>) (mw_objects W2))"
proof -
  let ?S = "twin_worlds sec_clock 512"
  let ?A = "aurora_row sec_clock 512"
  let ?B = "borealis_row sec_clock 512"
  let ?S' = "placed_state ?S (terrain_rng sample_library ?A) (2 * 2)
               (terrain_rows sample_library ''world_0'' ?A (clock ?S) (reads ?S))"
  have f: "fits_int64 512"
    by (simp add: fits_int64_def)
  have ids: "world_id_of (sec_clock 0) = ''world_0''" "world_id_of (sec_clock 1) = ''world_1000''"
    by (simp_all add: world_id_of_sec_clock str_nat.simps digit_char_def)
  then have ne: "world_id_of (sec_clock 0) \<noteq> world_id_of (sec_clock 1)"
    by simp
  note S = twin_worlds_eq [OF f ne]
  have w1: "find (\<lambda>r. wr_id r = ''world_0'') (worlds ?S) = Some ?A"
    using twin_worlds_find(1) [OF f ne] unfolding ids .
  have wB: "find (\<lambda>r. wr_id r = ''world_1000'') (worlds ?S) = Some ?B"
    using twin_worlds_find(2) [OF f ne] unfolding ids .
  have n: "(2::nat) = nat (py_int (int_truediv_256 (wr_size ?A)))"
    by (simp add: aurora_row_def grid_512)
  have fr8: "fresh_ids ?S (2 * 2 + 2 * 2)"
    by (rule fresh_ids_sec_clock) (simp_all add: S)
  have fr1: "fresh_ids ?S (2 * 2)"
    by (rule fresh_ids_sec_clock) (simp_all add: S)
  have run1: "generate_terrain sample_library ?S ''world_0'' = (Inr (), ?S')"
    by (rule generate_terrain_placed [OF w1 n fr1])
  have fr2: "fresh_ids ?S' (2 * 2)"
    by (rule fresh_ids_placed [OF fr8]) (simp add: terrain_rows_ids n [symmetric])
  have w2: "find (\<lambda>r. wr_id r = ''world_1000'') (worlds ?S') = Some ?B"
    using wB by simp
  have same: "wr_theme ?A = wr_theme ?B" "wr_seed ?A = wr_seed ?B" "wr_size ?A = wr_size ?B"
    by (simp_all add: aurora_row_def borealis_row_def)
  have new1: "filter (\<lambda>r. or_world_id r = ''world_0'') (world_objects ?S) = []"
    by (simp add: S)
  have new2: "filter (\<lambda>r. or_world_id r = ''world_1000'') (world_objects ?S') = []"
    using terrain_rows_world [of sample_library "''world_0''" ?A "clock ?S" "reads ?S"]
    by (simp add: S filter_empty_conv)
  note t = terrain_deterministic [OF w1 w2 same new1 new2 n fr1 fr2, of sample_library]
  show ?thesis
    unfolding run1 snd_conv
    using w1 w2 same new1 new2 n fr1 fr2 t run1
    by (intro conjI) simp_all
qed

theorem terrain_deterministic_counterexample:
  "map_option (\<lambda>w. (mw_theme w, mw_seed w, mw_size w, mw_objects w))
     (get_world (twin_worlds (stuck_clock 2) 256) ''world_0'') =
   map_option (\<lambda>w. (mw_theme w, mw_seed w, mw_size w, mw_objects w))
     (get_world (twin_worlds (stuck_clock 2) 256) ''world_1000'') \<and>
   fst (generate_terrain sample_library (twin_worlds (stuck_clock 2) 256) ''world_0'') = Inr () \<and>
   fst (generate_terrain sample_library
          (snd (generate_terrain sample_library (twin_worlds (stuck_clock 2) 256) ''world_0''))
          ''world_1000'') = Inl IntegrityError \<and>
   map_option (\<lambda>w. length (mw_objects w))
     (get_world
        (snd (generate_terrain sample_library
                (snd (generate_terrain sample_library (twin_worlds (stuck_clock 2) 256) ''world_0''))
                ''world_1000'')) ''world_0'') = Some 1 \<and>
   map_option (\<lambda>w. length (mw_objects w))
     (get_world
        (snd (generate_terrain sample_library
                (snd (generate_terrain sample_library (twin_worlds (stuck_clock 2) 256) ''world_0''))
                ''world_1000'')) ''world_1000'') = Some 0"
proof -
  let ?clk = "stuck_clock 2"
  let ?S = "twin_worlds ?clk 256"
  let ?A = "aurora_row ?clk 256"
  let ?B = "borealis_row ?clk 256"
  define row0 where "row0 = terrain_mk sample_library ''world_0'' ''arctic'' (0, 0) 42
                              (obj_id_of (?clk 2))"
  define S' where "S' = placed_state ?S (terrain_rng sample_library ?A) (1 * 1) [row0]"
  define S2 where "S2 = S'\<lparr>rng := terrain_nxt sample_library (0, 0) (random_seed sample_library 42),
                            reads := Suc (reads S')\<rparr>"
  have f: "fits_int64 256"
    by (simp add: fits_int64_def)
  have ids: "world_id_of (?clk 0) = ''world_0''" "world_id_of (?clk 1) = ''world_1000''"
    by (simp_all add: stuck_clock_simps world_id_of_sec_clock str_nat.simps digit_char_def)
  then have ne: "world_id_of (?clk 0) \<noteq> world_id_of (?clk 1)"
    by simp
  note S = twin_worlds_eq [OF f ne]
  have w1: "find (\<lambda>r. wr_id r = ''world_0'') (worlds ?S) = Some ?A"
    using twin_worlds_find(1) [OF f ne] unfolding ids .
  have w2: "find (\<lambda>r. wr_id r = ''world_1000'') (worlds ?S) = Some ?B"
    using twin_worlds_find(2) [OF f ne] unfolding ids .
  have n: "(1::nat) = nat (py_int (int_truediv_256 (wr_size ?A)))"
    by (simp add: aurora_row_def grid_256)
  have fr1: "fresh_ids ?S (1 * 1)"
    by (simp add: fresh_ids_def upcoming_ids_def S)
  have rows: "terrain_rows sample_library ''world_0'' ?A (clock ?S) (reads ?S) = [row0]"
    by (simp add: terrain_rows_def aurora_row_def grid_256 sample_library_def row0_def S)
  have run1: "generate_terrain sample_library ?S ''world_0'' = (Inr (), S')"
    using generate_terrain_placed [OF w1 n fr1, of sample_library]
    unfolding rows S'_def .
  have S'_fields: "worlds S' = worlds ?S" "world_objects S' = [row0]" "clock S' = ?clk"
    "reads S' = 3"
    by (simp_all add: S'_def S)
  have w1': "find (\<lambda>r. wr_id r = ''world_0'') (worlds S') = Some ?A"
    and w2': "find (\<lambda>r. wr_id r = ''world_1000'') (worlds S') = Some ?B"
    using w1 w2 by (simp_all add: S'_fields)
  have old: "obj_id_of (clock (S'\<lparr>rng := random_seed sample_library 42\<rparr>)
                          (reads (S'\<lparr>rng := random_seed sample_library 42\<rparr>)))
               \<in> set (map or_id (world_objects (S'\<lparr>rng := random_seed sample_library 42\<rparr>)))"
    by (simp add: S'_fields row0_def terrain_mk_def stuck_clock_simps)
  have w2'': "find (\<lambda>r. wr_id r = ''world_1000'')
                (worlds (S'\<lparr>rng := random_seed sample_library 42\<rparr>)) = Some ?B"
    using w2' by simp
  have gB: "py_range (py_int (int_truediv_256 (wr_size ?B))) = [0]"
    using grid_256 by (simp add: borealis_row_def py_range_def)
  have sB: "wr_seed ?B = 42"
    by (simp add: borealis_row_def)
  have run2: "generate_terrain sample_library S' ''world_1000'' = (Inl IntegrityError, S2)"
    unfolding generate_terrain_def get_world_loaded [OF w2'] option.case Let_def
      loaded_world_simps gB sB for_each.simps
      terrain_cell_collision [OF w2'' old] prod.case sum.case S2_def
    by simp
  have c0: "map_option (\<lambda>w. (mw_theme w, mw_seed w, mw_size w, mw_objects w))
              (get_world ?S ''world_0'') =
            map_option (\<lambda>w. (mw_theme w, mw_seed w, mw_size w, mw_objects w))
              (get_world ?S ''world_1000'')"
    unfolding get_world_loaded [OF w1] get_world_loaded [OF w2]
    by (simp add: S aurora_row_def borealis_row_def)
  have S2_fields: "worlds S2 = worlds S'" "world_objects S2 = [row0]"
    by (simp_all add: S2_def S'_fields)
  have c1: "map_option (\<lambda>w. length (mw_objects w)) (get_world S2 ''world_0'') = Some 1"
    using w1' by (simp add: get_world_loaded S2_fields row0_def terrain_mk_def)
  have c2: "map_option (\<lambda>w. length (mw_objects w)) (get_world S2 ''world_1000'') = Some 0"
    using w2' by (simp add: get_world_loaded S2_fields row0_def terrain_mk_def)
  show ?thesis
    unfolding run1 run2 fst_conv snd_conv
    using c0 c1 c2 by simp
qed

section \<open>Population\<close>

text \<open>
  Claim C4, as amended. For a stored world, when the ids the clock yields for the calls
  of \<^verbatim>\<open>add_object\<close> that the population makes (\<open>population_size\<close> of the theme: 27 or
  12, plus one for cyberpunk, fantasy and space) are new, \<^verbatim>\<open>populate_world\<close> returns
  without error and appends rows of that world only: exactly 8 buildings, 15 trees (none
  for space and underwater), 4 lights, and besides these the one special object of the
  theme at its fixed coordinates (an npc for cyberpunk, an artifact for fantasy, a
  portal for space) or nothing for another theme. In the scenario of the spec, on a new
  database and with a clock whose readings give 31 distinct object ids, creating
  Aurora (arctic, seed 42, size 512), generating its terrain and populating it succeed,
  and the world retrieved afterwards has 4 + 8 + 15 + 4 = 31 objects. As stated the
  claim fails when two calls of \<^verbatim>\<open>add_object\<close> draw the same id: the second insert
  violates the primary key and the population stops there.
\<close>

theorem population_counts:
  "(find (\<lambda>r. wr_id r = world_id) (worlds s) = Some row \<and>
    fresh_ids s (population_size (wr_theme row)) \<longrightarrow>
      (\<exists>s' rows oid.
         populate_world L s world_id = (Inr (), s') \<and>
         world_objects s' = world_objects s @ rows \<and>
         filter (\<lambda>r. or_world_id r = world_id) rows = rows \<and>
         length (filter (\<lambda>r. or_type r = ''building'') rows) = 8 \<and>
         length (filter (\<lambda>r. or_type r = ''tree'') rows) =
           (if wr_theme row \<in> set [''space'', ''underwater''] then 0 else 15) \<and>
         length (filter (\<lambda>r. or_type r = ''light'') rows) = 4 \<and>
         filter (\<lambda>r. or_type r \<notin> set [''building'', ''tree'', ''light'']) rows =
           (if wr_theme row = ''cyberpunk'' then
              [\<lparr>or_id = oid, or_world_id = world_id, or_type = ''npc'',
                or_name = ''neon_runner'', or_x = 500, or_y = 50, or_z = 500,
                or_scale = PNum 2, or_rotation = PNum 0, or_color = PStr ''#FF00FF'',
                or_properties = []\<rparr>]
            else if wr_theme row = ''fantasy'' then
              [\<lparr>or_id = oid, or_world_id = world_id, or_type = ''artifact'',
                or_name = ''ancient_stone'', or_x = 512, or_y = 20, or_z = 512,
                or_scale = PNum 10, or_rotation = PNum 0, or_color = PStr ''#808080'',
                or_properties = []\<rparr>]
            else if wr_theme row = ''space'' then
              [\<lparr>or_id = oid, or_world_id = world_id, or_type = ''portal'',
                or_name = ''stargate'', or_x = 512, or_y = 100, or_z = 512,
                or_scale = PNum 50, or_rotation = PNum 0, or_color = PStr ''#00FFFF'',
                or_properties = []\<rparr>]
            else []))) \<and>
   (distinct (map (\<lambda>k. obj_id_of (clk (Suc k))) [0..<31]) \<longrightarrow>
      (\<exists>w s1 s2 s3 W.
         create_world L (new_builder g clk) ''Aurora'' ''arctic'' (Some 42) 512 = (Inr w, s1) \<and>
         generate_terrain L s1 (mw_id w) = (Inr (), s2) \<and>
         populate_world L s2 (mw_id w) = (Inr (), s3) \<and>
         get_world s3 (mw_id w) = Some W \<and>
         length (mw_objects W) = 4 + 8 + 15 + 4))"
proof (intro conjI impI)
  assume a: "find (\<lambda>r. wr_id r = world_id) (worlds s) = Some row \<and>
             fresh_ids s (population_size (wr_theme row))"
  let ?rows = "population_rows L world_id row (clock s) (reads s)"
  let ?s' = "placed_state s (population_rng L row) (population_size (wr_theme row)) ?rows"
  let ?oid = "obj_id_of (clock s (reads s + 8 + tree_count (wr_theme row) + 4))"
  have run: "populate_world L s world_id = (Inr (), ?s')"
    using a by (intro populate_world_placed) simp_all
  show "\<exists>s' rows oid.
         populate_world L s world_id = (Inr (), s') \<and>
         world_objects s' = world_objects s @ rows \<and>
         filter (\<lambda>r. or_world_id r = world_id) rows = rows \<and>
         length (filter (\<lambda>r. or_type r = ''building'') rows) = 8 \<and>
         length (filter (\<lambda>r. or_type r = ''tree'') rows) =
           (if wr_theme row \<in> set [''space'', ''underwater''] then 0 else 15) \<and>
         length (filter (\<lambda>r. or_type r = ''light'') rows) = 4 \<and>
         filter (\<lambda>r. or_type r \<notin> set [''building'', ''tree'', ''light'']) rows =
           (if wr_theme row = ''cyberpunk'' then
              [\<lparr>or_id = oid, or_world_id = world_id, or_type = ''npc'',
                or_name = ''neon_runner'', or_x = 500, or_y = 50, or_z = 500,
                or_scale = PNum 2, or_rotation = PNum 0, or_color = PStr ''#FF00FF'',
                or_properties = []\<rparr>]
            else if wr_theme row = ''fantasy'' then
              [\<lparr>or_id = oid, or_world_id = world_id, or_type = ''artifact'',
                or_name = ''ancient_stone'', or_x = 512, or_y = 20, or_z = 512,
                or_scale = PNum 10, or_rotation = PNum 0, or_color = PStr ''#808080'',
                or_properties = []\<rparr>]
            else if wr_theme row = ''space'' then
              [\<lparr>or_id = oid, or_world_id = world_id, or_type = ''portal'',
                or_name = ''stargate'', or_x = 512, or_y = 100, or_z = 512,
                or_scale = PNum 50, or_rotation = PNum 0, or_color = PStr ''#00FFFF'',
                or_properties = []\<rparr>]
            else [])"
    apply (rule exI [of _ ?s'])
    apply (rule exI [of _ ?rows])
    apply (rule exI [of _ ?oid])
    apply (intro conjI)
          apply (rule run)
         apply simp
        apply (rule population_rows_world)
       apply (rule population_rows_buildings)
      apply (rule population_rows_trees)
     apply (rule population_rows_lights)
    apply (simp only: population_rows_special)
    apply (simp add: special_rows_def placed_row_def)
    done
next
  assume d: "distinct (map (\<lambda>k. obj_id_of (clk (Suc k))) [0..<31])"
  let ?wid = "world_id_of (clk 0)"
  let ?row = "\<lparr>wr_id = ?wid, wr_name = ''Aurora'', wr_theme = ''arctic'', wr_seed = 42,
               wr_size = 512, wr_created_at = clk 0,
               wr_description = ''A arctic metaverse world''\<rparr>"
  let ?w = "\<lparr>mw_id = ?wid, mw_name = ''Aurora'', mw_theme = ''arctic'', mw_seed = 42,
             mw_size = 512, mw_objects = [], mw_created_at = PNum (clk 0),
             mw_description = ''''\<rparr>"
  define s1 where "s1 = \<lparr>worlds = [?row], world_objects = [], player_positions = [], rng = g,
                          clock = clk, reads = 1\<rparr>"
  define rows4 where "rows4 = terrain_rows L ?wid ?row clk 1"
  define s2 where "s2 = placed_state s1 (terrain_rng L ?row) (2 * 2) rows4"
  define rows27 where "rows27 = population_rows L ?wid ?row clk 5"
  define s3 where "s3 = placed_state s2 (population_rng L ?row) 27 rows27"
  have c: "create_world L (new_builder g clk) ''Aurora'' ''arctic'' (Some 42) 512 = (Inr ?w, s1)"
    using create_world_ok [of "''arctic''" 42 512 "new_builder g clk" L "''Aurora''"]
    by (simp add: new_builder_def THEMES_def fits_int64_def s1_def)
  have w1: "find (\<lambda>r. wr_id r = ?wid) (worlds s1) = Some ?row"
    by (simp add: s1_def)
  have n: "(2::nat) = nat (py_int (int_truediv_256 (wr_size ?row)))"
    by (simp add: grid_512)
  have fr: "fresh_ids s1 (2 * 2 + 27)"
    using d by (simp add: fresh_ids_def upcoming_ids_def s1_def)
  have ids4: "map or_id rows4 = upcoming_ids s1 (2 * 2)"
    using terrain_rows_ids [of L ?wid ?row s1]
    by (simp add: rows4_def s1_def grid_512)
  have "fresh_ids s1 (2 * 2) \<and> fresh_ids s2 27"
    by (rule fresh_ids_split [OF fr]) (simp_all add: s2_def ids4)
  then have fr1: "fresh_ids s1 (2 * 2)" and fr2: "fresh_ids s2 27"
    by simp_all
  have t: "generate_terrain L s1 ?wid = (Inr (), s2)"
    using generate_terrain_placed [OF w1 n fr1, of L]
    by (simp add: s2_def rows4_def s1_def)
  have w2: "find (\<lambda>r. wr_id r = ?wid) (worlds s2) = Some ?row"
    using w1 by (simp add: s2_def)
  have ps: "population_size (wr_theme ?row) = 27"
    by (simp add: population_size_def tree_count_def special_count_def)
  have s2f: "clock s2 = clk" "reads s2 = 5"
    by (simp_all add: s2_def s1_def)
  have "fresh_ids s2 (population_size (wr_theme ?row))"
    using fr2 by (simp only: ps)
  from populate_world_placed [OF w2 this, of L]
  have p: "populate_world L s2 ?wid = (Inr (), s3)"
    by (simp only: ps s2f s3_def rows27_def)
  have new4: "filter (\<lambda>r. or_world_id r = ?wid) rows4 = rows4"
    unfolding rows4_def
    using terrain_rows_world [of L ?wid ?row clk 1] by (intro filter_all) simp
  have gw: "get_world s3 ?wid = Some (loaded_world s3 ?wid ?row)"
    by (rule get_world_loaded) (simp add: s3_def s2_def s1_def)
  have objs: "mw_objects (loaded_world s3 ?wid ?row) =
                map row_to_object rows4 @ map row_to_object rows27"
    using population_rows_world [of ?wid L ?row clk 5] new4
    by (simp add: s3_def s2_def s1_def rows27_def)
  have len: "length (mw_objects (loaded_world s3 ?wid ?row)) = 4 + 8 + 15 + 4"
    unfolding objs
    using length_population_rows [of L ?wid ?row clk 5] length_terrain_rows [of L ?wid ?row clk 1]
    by (simp add: rows4_def rows27_def grid_512 population_size_def tree_count_def
          special_count_def)
  show "\<exists>w s1 s2 s3 W.
         create_world L (new_builder g clk) ''Aurora'' ''arctic'' (Some 42) 512 = (Inr w, s1) \<and>
         generate_terrain L s1 (mw_id w) = (Inr (), s2) \<and>
         populate_world L s2 (mw_id w) = (Inr (), s3) \<and>
         get_world s3 (mw_id w) = Some W \<and>
         length (mw_objects W) = 4 + 8 + 15 + 4"
    apply (rule exI [of _ ?w])
    apply (rule exI [of _ s1])
    apply (rule exI [of _ s2])
    apply (rule exI [of _ s3])
    apply (rule exI [of _ "loaded_world s3 ?wid ?row"])
    using c t p gw len apply simp
    done
qed

theorem population_counts_witness:
  "find (\<lambda>r. wr_id r = ''world_0'') (worlds (aurora sec_clock 512)) =
     Some (aurora_row sec_clock 512) \<and>
   fresh_ids (aurora sec_clock 512) (population_size (wr_theme (aurora_row sec_clock 512))) \<and>
   (\<exists>s' rows oid.
      populate_world sample_library (aurora sec_clock 512) ''world_0'' = (Inr (), s') \<and>
      world_objects s' = world_objects (aurora sec_clock 512) @ rows \<and>
      filter (\<lambda>r. or_world_id r = ''world_0'') rows = rows \<and>
      length (filter (\<lambda>r. or_type r = ''building'') rows) = 8 \<and>
      length (filter (\<lambda>r. or_type r = ''tree'') rows) =
        (if wr_theme (aurora_row sec_clock 512) \<in> set [''space'', ''underwater''] then 0 else 15) \<and>
      length (filter (\<lambda>r. or_type r = ''light'') rows) = 4 \<and>
      filter (\<lambda>r. or_type r \<notin> set [''building'', ''tree'', ''light'']) rows =
        (if wr_theme (aurora_row sec_clock 512) = ''cyberpunk'' then
           [\<lparr>or_id = oid, or_world_id = ''world_0'', or_type = ''npc'',
             or_name = ''neon_runner'', or_x = 500, or_y = 50, or_z = 500,
             or_scale = PNum 2, or_rotation = PNum 0, or_color = PStr ''#FF00FF'',
             or_properties = []\<rparr>]
         else if wr_theme (aurora_row sec_clock 512) = ''fantasy'' then
           [\<lparr>or_id = oid, or_world_id = ''world_0'', or_type = ''artifact'',
             or_name = ''ancient_stone'', or_x = 512, or_y = 20, or_z = 512,
             or_scale = PNum 10, or_rotation = PNum 0, or_color = PStr ''#808080'',
             or_properties = []\<rparr>]
         else if wr_theme (aurora_row sec_clock 512) = ''space'' then
           [\<lparr>or_id = oid, or_world_id = ''world_0'', or_type = ''portal'',
             or_name = ''stargate'', or_x = 512, or_y = 100, or_z = 512,
             or_scale = PNum 50, or_rotation = PNum 0, or_color = PStr ''#00FFFF'',
             or_properties = []\<rparr>]
         else [])) \<and>
   distinct (map (\<lambda>k. obj_id_of (sec_clock (Suc k))) [0..<31]) \<and>
   (\<exists>w s1 s2 s3 W.
      create_world sample_library (new_builder 0 sec_clock) ''Aurora'' ''arctic'' (Some 42) 512
        = (Inr w, s1) \<and>
      generate_terrain sample_library s1 (mw_id w) = (Inr (), s2) \<and>
      populate_world sample_library s2 (mw_id w) = (Inr (), s3) \<and>
      get_world s3 (mw_id w) = Some W \<and>
      length (mw_objects W) = 4 + 8 + 15 + 4)"
proof -
  have f: "fits_int64 512"
    by (simp add: fits_int64_def)
  have w: "find (\<lambda>r. wr_id r = ''world_0'') (worlds (aurora sec_clock 512)) =
             Some (aurora_row sec_clock 512)"
    using aurora_find [OF f, of sec_clock] by (simp add: world_id_of_sec_clock)
  have fr: "fresh_ids (aurora sec_clock 512)
              (population_size (wr_theme (aurora_row sec_clock 512)))"
    by (rule fresh_ids_sec_clock)
       (simp_all add: aurora_simps [OF f] aurora_row_def population_size_def tree_count_def
          special_count_def)
  have "inj_on (\<lambda>k. obj_id_of (sec_clock (Suc k))) {0..<31}"
    by (auto simp: inj_on_def millis_sec_clock dest!: obj_id_of_inj)
  then have d: "distinct (map (\<lambda>k. obj_id_of (sec_clock (Suc k))) [0..<31])"
    by (simp add: distinct_map)
  note t = population_counts [where world_id = "''world_0''" and s = "aurora sec_clock 512"
      and row = "aurora_row sec_clock 512" and L = sample_library and clk = sec_clock and g = 0]
  show ?thesis
    using w fr d t by blast
qed

theorem population_counts_counterexample:
  "fst (populate_world sample_library (aurora (stuck_clock 1) 512) ''world_0'') =
     Inl IntegrityError \<and>
   map or_type
     (world_objects (snd (populate_world sample_library (aurora (stuck_clock 1) 512) ''world_0'')))
     = [''building'']"
proof -
  define clk where "clk = stuck_clock 1"
  have clk: "clk 0 = sec_clock 0" "clk 1 = sec_clock 1" "clk 2 = sec_clock 1"
    by (simp_all add: clk_def stuck_clock_simps)
  let ?S = "aurora clk 512"
  let ?A = "aurora_row clk 512"
  define world where "world = loaded_world ?S ''world_0'' ?A"
  define S0 where "S0 = ?S\<lparr>rng := random_seed sample_library 42\<rparr>"
  define row0 where "row0 =
    xz_mk sample_library (mw_size world)
      (\<lambda>i x z. placed_row ''world_0'' ''building'' (wr_theme ?A @ ''_building_'' @ str_nat i)
                  x 20 z 20 (dict_get THEME_COLORS (wr_theme ?A) ''#FFFFFF''))
      0 (rng S0) (obj_id_of (clock S0 (reads S0)))"
  define S1 where "S1 = placed_state S0 (xz_nxt sample_library (mw_size world) 0 (rng S0)) 1 [row0]"
  define S2 where "S2 = S1\<lparr>rng := xz_nxt sample_library (mw_size world) 1 (rng S1),
                            reads := Suc (reads S1)\<rparr>"
  have f: "fits_int64 512"
    by (simp add: fits_int64_def)
  note S = aurora_simps [OF f, of clk]
  have id0: "world_id_of (clk 0) = ''world_0''"
    by (simp add: clk world_id_of_sec_clock)
  have w: "find (\<lambda>r. wr_id r = ''world_0'') (worlds ?S) = Some ?A"
    using aurora_find [OF f, of clk] unfolding id0 .
  have gw: "get_world ?S ''world_0'' = Some world"
    unfolding world_def by (rule get_world_loaded [OF w])
  have w0: "find (\<lambda>r. wr_id r = ''world_0'') (worlds S0) = Some ?A"
    using w by (simp add: S0_def)
  have th: "mw_theme world = wr_theme ?A" and sd: "mw_seed world = 42"
    by (simp_all add: world_def aurora_row_def)
  have fresh0: "obj_id_of (clock S0 (reads S0)) \<notin> set (map or_id (world_objects S0))"
    by (simp add: S0_def S)
  have b0: "place_building sample_library ''world_0'' world 0 S0 = (Inr (), S1)"
    unfolding S1_def row0_def by (rule place_building_placed [OF w0 th fresh0])
  have w1: "find (\<lambda>r. wr_id r = ''world_0'') (worlds S1) = Some ?A"
    using w0 by (simp add: S1_def)
  have old1: "obj_id_of (clock S1 (reads S1)) \<in> set (map or_id (world_objects S1))"
    using clk by (simp add: S1_def S0_def S row0_def xz_mk_def numeral_2_eq_2)
  have b1: "place_building sample_library ''world_0'' world 1 S1 = (Inl IntegrityError, S2)"
    unfolding S2_def by (rule place_building_collision [OF w1 old1])
  have r8: "py_range 8 = 0 # 1 # [2..<8]"
    by (simp add: py_range_def upt_conv_Cons)
  have run: "populate_world sample_library ?S ''world_0'' = (Inl IntegrityError, S2)"
    unfolding populate_world_def gw option.case sd and_then_def r8 for_each.simps
      S0_def [symmetric] b0 prod.case sum.case b1
    by (rule refl)
  have "map or_type (world_objects S2) = [''building'']"
    by (simp add: S2_def S1_def S0_def S row0_def xz_mk_def)
  then show ?thesis
    unfolding clk_def [symmetric] run by simp
qed

section \<open>The exports\<close>

lemma export_json_outcome:
  "export_json L s world_id =
     (if world_id \<in> set (map wr_id (worlds s)) then Inl TypeError
      else Inl (ValueError (not_found_msg world_id)))"
proof (cases "find (\<lambda>r. wr_id r = world_id) (worlds s)")
  case None
  then have "world_id \<notin> set (map wr_id (worlds s))"
    by (auto simp: find_None_iff)
  with None show ?thesis
    by (simp add: export_json_def get_world_def)
next
  case (Some row)
  then have "world_id \<in> set (map wr_id (worlds s))"
    by (auto simp: find_Some_iff)
  with Some show ?thesis
    by (simp add: export_json_def get_world_def)
qed

text \<open>
  Claim C1: the claim is right and the code is wrong. \<^verbatim>\<open>export_json\<close> means to return
  the world's id, name, theme, seed, size, descriptors and the creation time in ISO
  format, but \<^verbatim>\<open>get_world\<close> builds the world with \<^verbatim>\<open>MetaverseWorld(*row)\<close> from a row
  whose columns are not in the order of the dataclass fields: the world's
  \<open>created_at\<close> holds the row's description, a string, and
  \<^verbatim>\<open>datetime.fromtimestamp\<close> raises \<^verbatim>\<open>TypeError\<close> on it. So the export of a stored world
  never returns; here for the world of the spec's scenario, right after its creation.
\<close>

theorem export_json_raises_type_error:
  "fst (create_world sample_library (new_builder 0 sec_clock) ''Aurora'' ''arctic'' (Some 42) 512) =
     Inr \<lparr>mw_id = ''world_0'', mw_name = ''Aurora'', mw_theme = ''arctic'', mw_seed = 42,
           mw_size = 512, mw_objects = [], mw_created_at = PNum 0, mw_description = ''''\<rparr> \<and>
   get_world (aurora sec_clock 512) ''world_0'' =
     Some \<lparr>mw_id = ''world_0'', mw_name = ''Aurora'', mw_theme = ''arctic'', mw_seed = 42,
            mw_size = 512, mw_objects = [],
            mw_created_at = PStr ''A arctic metaverse world'', mw_description = ''''\<rparr> \<and>
   export_json sample_library (aurora sec_clock 512) ''world_0'' = Inl TypeError"
proof -
  have f: "fits_int64 512"
    by (simp add: fits_int64_def)
  have id0: "world_id_of (sec_clock 0) = ''world_0''"
    by (simp add: world_id_of_sec_clock)
  have z: "sec_clock 0 = 0"
    by (simp add: sec_clock_def)
  have id0': "world_id_of 0 = ''world_0''"
    using id0 by (simp add: z)
  have w: "find (\<lambda>r. wr_id r = ''world_0'') (worlds (aurora sec_clock 512)) =
             Some (aurora_row sec_clock 512)"
    using aurora_find [OF f, of sec_clock] by (simp add: id0)
  have c: "fst (create_world sample_library (new_builder 0 sec_clock) ''Aurora'' ''arctic''
                  (Some 42) 512) =
     Inr \<lparr>mw_id = ''world_0'', mw_name = ''Aurora'', mw_theme = ''arctic'', mw_seed = 42,
           mw_size = 512, mw_objects = [], mw_created_at = PNum 0, mw_description = ''''\<rparr>"
    using create_world_ok [of "''arctic''" 42 512 "new_builder 0 sec_clock" sample_library
        "''Aurora''"]
    by (simp add: new_builder_def THEMES_def fits_int64_def z id0')
  have g: "get_world (aurora sec_clock 512) ''world_0'' =
     Some \<lparr>mw_id = ''world_0'', mw_name = ''Aurora'', mw_theme = ''arctic'', mw_seed = 42,
            mw_size = 512, mw_objects = [],
            mw_created_at = PStr ''A arctic metaverse world'', mw_description = ''''\<rparr>"
    unfolding get_world_found [OF w]
    by (simp add: aurora_row_def aurora_simps [OF f] id0)
  have e: "export_json sample_library (aurora sec_clock 512) ''world_0'' = Inl TypeError"
    unfolding export_json_outcome
    by (simp add: aurora_simps [OF f] aurora_row_def id0)
  show ?thesis
    using c g e by simp
qed

text \<open>
  Claim C9. For a stored world whose objects, in stored order, are \<open>rows\<close> with
  \<open>N = length rows\<close>, \<^verbatim>\<open>export_gltf_stub\<close> returns the asset header, scene 0, one scene
  named after the world that lists the node indices \<open>0, ..., N - 1\<close> in order, \<open>N\<close>
  nodes and \<open>N\<close> meshes: node \<open>k\<close> carries the name of the \<open>k\<close>-th object, its
  coordinates as the translation and its scale three times, and every mesh is the
  same placeholder, one primitive with no attributes.
\<close>

theorem gltf_stub_structure:
  assumes "find (\<lambda>r. wr_id r = world_id) (worlds s) = Some row"
    and "rows = filter (\<lambda>r. or_world_id r = world_id) (world_objects s)"
  shows "\<exists>scene_nodes nodes meshes.
           export_gltf_stub s world_id =
             Inr (PDict
               [(''asset'', PDict [(''version'', PStr ''2.0''),
                                   (''generator'', PStr ''MetaverseBuilder'')]),
                (''scene'', PNum 0),
                (''scenes'', PList [PDict [(''name'', PStr (wr_name row)),
                                           (''nodes'', PList scene_nodes)]]),
                (''nodes'', PList nodes),
                (''meshes'', PList meshes)]) \<and>
           scene_nodes = map (\<lambda>k. PNum (real k)) [0..<length rows] \<and>
           length nodes = length rows \<and>
           length meshes = length rows \<and>
           (\<forall>k<length rows.
              nodes ! k =
                PDict [(''name'', PStr (or_name (rows ! k))),
                       (''translation'', PList [PNum (or_x (rows ! k)), PNum (or_y (rows ! k)),
                                                PNum (or_z (rows ! k))]),
                       (''scale'', PList [or_scale (rows ! k), or_scale (rows ! k),
                                          or_scale (rows ! k)])] \<and>
              meshes ! k = PDict [(''primitives'', PList [PDict [(''attributes'', PDict [])]])])"
  using assms
  by (simp add: export_gltf_stub_def get_world_found gltf_node_def gltf_mesh_def
        row_to_object_def)

theorem gltf_stub_structure_witness:
  "find (\<lambda>r. wr_id r = ''world_0'')
     (worlds (snd (generate_terrain sample_library (aurora sec_clock 512) ''world_0''))) =
     Some (aurora_row sec_clock 512) \<and>
   length (filter (\<lambda>r. or_world_id r = ''world_0'')
             (world_objects (snd (generate_terrain sample_library (aurora sec_clock 512)
                                    ''world_0'')))) = 4 \<and>
   (\<exists>scene_nodes nodes meshes.
      export_gltf_stub (snd (generate_terrain sample_library (aurora sec_clock 512) ''world_0''))
          ''world_0'' =
        Inr (PDict
          [(''asset'', PDict [(''version'', PStr ''2.0''),
                              (''generator'', PStr ''MetaverseBuilder'')]),
           (''scene'', PNum 0),
           (''scenes'', PList [PDict [(''name'', PStr (wr_name (aurora_row sec_clock 512))),
                                      (''nodes'', PList scene_nodes)]]),
           (''nodes'', PList nodes),
           (''meshes'', PList meshes)]) \<and>
      scene_nodes = map (\<lambda>k. PNum (real k)) [0..<4] \<and>
      length nodes = 4 \<and>
      length meshes = 4 \<and>
      (\<forall>k<4.
         nodes ! k =
           PDict [(''name'', PStr (or_name (filter (\<lambda>r. or_world_id r = ''world_0'')
                     (world_objects (snd (generate_terrain sample_library (aurora sec_clock 512)
                        ''world_0''))) ! k))),
                  (''translation'', PList
                     [PNum (or_x (filter (\<lambda>r. or_world_id r = ''world_0'')
                        (world_objects (snd (generate_terrain sample_library
                           (aurora sec_clock 512) ''world_0''))) ! k)),
                      PNum (or_y (filter (\<lambda>r. or_world_id r = ''world_0'')
                        (world_objects (snd (generate_terrain sample_library
                           (aurora sec_clock 512) ''world_0''))) ! k)),
                      PNum (or_z (filter (\<lambda>r. or_world_id r = ''world_0'')
                        (world_objects (snd (generate_terrain sample_library
                           (aurora sec_clock 512) ''world_0''))) ! k))]),
                  (''scale'', PList
                     [or_scale (filter (\<lambda>r. or_world_id r = ''world_0'')
                        (world_objects (snd (generate_terrain sample_library
                           (aurora sec_clock 512) ''world_0''))) ! k),
                      or_scale (filter (\<lambda>r. or_world_id r = ''world_0'')
                        (world_objects (snd (generate_terrain sample_library
                           (aurora sec_clock 512) ''world_0''))) ! k),
                      or_scale (filter (\<lambda>r. or_world_id r = ''world_0'')
                        (world_objects (snd (generate_terrain sample_library
                           (aurora sec_clock 512) ''world_0''))) ! k)])] \<and>
         meshes ! k = PDict [(''primitives'', PList [PDict [(''attributes'', PDict [])]])]))"
proof -
  let ?S = "aurora sec_clock 512"
  let ?A = "aurora_row sec_clock 512"
  define S' where "S' = snd (generate_terrain sample_library ?S ''world_0'')"
  define rows where "rows = filter (\<lambda>r. or_world_id r = ''world_0'') (world_objects S')"
  have f: "fits_int64 512"
    by (simp add: fits_int64_def)
  have w: "find (\<lambda>r. wr_id r = ''world_0'') (worlds ?S) = Some ?A"
    using aurora_find [OF f, of sec_clock] by (simp add: world_id_of_sec_clock)
  have n: "(2::nat) = nat (py_int (int_truediv_256 (wr_size ?A)))"
    by (simp add: aurora_row_def grid_512)
  have fr: "fresh_ids ?S (2 * 2)"
    by (rule fresh_ids_sec_clock) (simp_all add: aurora_simps [OF f])
  have S': "S' = placed_state ?S (terrain_rng sample_library ?A) (2 * 2)
                   (terrain_rows sample_library ''world_0'' ?A (clock ?S) (reads ?S))"
    unfolding S'_def generate_terrain_placed [OF w n fr] by simp
  have w': "find (\<lambda>r. wr_id r = ''world_0'') (worlds S') = Some ?A"
    using w by (simp add: S')
  have "rows = terrain_rows sample_library ''world_0'' ?A (clock ?S) (reads ?S)"
    unfolding rows_def S'
    using terrain_rows_world [of sample_library "''world_0''" ?A "clock ?S" "reads ?S"]
    by (simp add: aurora_simps [OF f] filter_all)
  then have len: "length rows = 4"
    by (simp add: length_terrain_rows n [symmetric])
  note t = gltf_stub_structure [OF w' rows_def, unfolded len]
  show ?thesis
    using w' len t unfolding rows_def S'_def by (intro conjI)
qed

section \<open>Teleport\<close>

lemma update_position_keys [simp]:
  "map position_key (update_position p w x y z t tbl) = map position_key tbl"
  by (induction tbl) (auto simp: update_position_def position_key_def)

lemma filter_update_position:
  "filter (\<lambda>r. position_key r = (p, w)) (update_position p w x y z t tbl) =
     map (\<lambda>r. \<lparr>pp_player_id = p, pp_world_id = w, pp_x = x, pp_y = y, pp_z = z,
                pp_teleported_at = t\<rparr>)
         (filter (\<lambda>r. position_key r = (p, w)) tbl)"
  by (induction tbl) (auto simp: update_position_def position_key_def)

lemma filter_others_update_position:
  "filter (\<lambda>r. \<not> (pp_player_id r = p \<and> pp_world_id r = w)) (update_position p w x y z t tbl) =
     filter (\<lambda>r. \<not> (pp_player_id r = p \<and> pp_world_id r = w)) tbl"
  by (induction tbl) (auto simp: update_position_def)

lemma filter_key_unique:
  assumes "distinct (map position_key tbl)" and "k \<in> set (map position_key tbl)"
  shows "length (filter (\<lambda>r. position_key r = k) tbl) = 1"
  using assms
proof (induction tbl)
  case Nil
  then show ?case by simp
next
  case (Cons r tbl)
  show ?case
  proof (cases "position_key r = k")
    case True
    with Cons.prems have "\<forall>r' \<in> set tbl. position_key r' \<noteq> k"
      by (auto simp: image_iff)
    then have "filter (\<lambda>r. position_key r = k) tbl = []"
      by (simp add: filter_empty_conv)
    with True show ?thesis by simp
  next
    case False
    with Cons show ?thesis by auto
  qed
qed

lemma teleport_new:
  assumes "(player_id, world_id) \<notin> set (map position_key (player_positions s))"
  shows "teleport s world_id player_id x y z =
           (Inr (), s\<lparr>reads := Suc (reads s),
                       player_positions := player_positions s @
                         [\<lparr>pp_player_id = player_id, pp_world_id = world_id, pp_x = x, pp_y = y,
                           pp_z = z, pp_teleported_at = clock s (reads s)\<rparr>]\<rparr>)"
  using assms
  by (simp add: teleport_def now_def insert_position_def position_key_def Let_def)

lemma teleport_again:
  assumes "(player_id, world_id) \<in> set (map position_key (player_positions s))"
  shows "teleport s world_id player_id x y z =
           (Inr (), s\<lparr>reads := Suc (reads s),
                       player_positions :=
                         update_position player_id world_id x y z (clock s (reads s))
                           (player_positions s)\<rparr>)"
    and "insert_position
           \<lparr>pp_player_id = player_id, pp_world_id = world_id, pp_x = x, pp_y = y, pp_z = z,
            pp_teleported_at = t\<rparr> (player_positions s) = Inl IntegrityError"
  using assms
  by (simp_all add: teleport_def now_def insert_position_def position_key_def Let_def)

text \<open>
  Claim C6. In a database that satisfies the primary key of \<^verbatim>\<open>player_positions\<close>, two
  calls of \<^verbatim>\<open>teleport\<close> for the same player and world both return without error. The
  first call appends a row for the pair if there is none and updates the pair's row in
  place otherwise, and changes nothing else but the count of clock readings. In the
  state it leaves, the \<^verbatim>\<open>INSERT\<close> of the second call's row raises \<^verbatim>\<open>IntegrityError\<close>, and
  what the second call returns is no error and the table after the \<^verbatim>\<open>UPDATE\<close>, nothing
  else changed but the count of clock readings. Afterwards the table has exactly one
  row for the pair, with the coordinates of the second call and the time the second
  call read from the clock; the rows of all other pairs are the ones of the start, in
  the same order; and the key still holds.
\<close>

theorem teleport_twice_one_row:
  assumes pk: "distinct (map position_key (player_positions s))"
  shows "\<exists>s1 s2.
           teleport s world_id player_id x1 y1 z1 = (Inr (), s1) \<and>
           s1 = s\<lparr>player_positions :=
                     (if (player_id, world_id) \<in> set (map position_key (player_positions s))
                      then update_position player_id world_id x1 y1 z1 (clock s (reads s))
                             (player_positions s)
                      else player_positions s @
                             [\<lparr>pp_player_id = player_id, pp_world_id = world_id, pp_x = x1,
                               pp_y = y1, pp_z = z1, pp_teleported_at = clock s (reads s)\<rparr>]),
                   reads := Suc (reads s)\<rparr> \<and>
           insert_position
             \<lparr>pp_player_id = player_id, pp_world_id = world_id, pp_x = x2, pp_y = y2, pp_z = z2,
              pp_teleported_at = clock s (Suc (reads s))\<rparr> (player_positions s1)
             = Inl IntegrityError \<and>
           teleport s1 world_id player_id x2 y2 z2 = (Inr (), s2) \<and>
           s2 = s1\<lparr>player_positions :=
                      update_position player_id world_id x2 y2 z2 (clock s (Suc (reads s)))
                        (player_positions s1),
                    reads := Suc (Suc (reads s))\<rparr> \<and>
           filter (\<lambda>r. pp_player_id r = player_id \<and> pp_world_id r = world_id)
               (player_positions s2) =
             [\<lparr>pp_player_id = player_id, pp_world_id = world_id, pp_x = x2, pp_y = y2, pp_z = z2,
               pp_teleported_at = clock s (Suc (reads s))\<rparr>] \<and>
           filter (\<lambda>r. \<not> (pp_player_id r = player_id \<and> pp_world_id r = world_id))
               (player_positions s2) =
             filter (\<lambda>r. \<not> (pp_player_id r = player_id \<and> pp_world_id r = world_id))
               (player_positions s) \<and>
           length (player_positions s2) = length (player_positions s1) \<and>
           distinct (map position_key (player_positions s2))"
proof -
  let ?k = "(player_id, world_id)"
  let ?T = "player_positions s"
  let ?new = "\<lambda>x y z t. \<lparr>pp_player_id = player_id, pp_world_id = world_id, pp_x = x, pp_y = y,
                          pp_z = z, pp_teleported_at = t\<rparr>"
  let ?other = "\<lambda>r. \<not> (pp_player_id r = player_id \<and> pp_world_id r = world_id)"
  define T1 where "T1 =
    (if ?k \<in> set (map position_key ?T)
     then update_position player_id world_id x1 y1 z1 (clock s (reads s)) ?T
     else ?T @ [?new x1 y1 z1 (clock s (reads s))])"
  define s1 where "s1 = s\<lparr>player_positions := T1, reads := Suc (reads s)\<rparr>"
  define T2 where "T2 = update_position player_id world_id x2 y2 z2 (clock s (Suc (reads s))) T1"
  define s2 where "s2 = s1\<lparr>player_positions := T2, reads := Suc (Suc (reads s))\<rparr>"
  have s1: "player_positions s1 = T1" "clock s1 = clock s" "reads s1 = Suc (reads s)"
    by (simp_all add: s1_def)
  have t1: "teleport s world_id player_id x1 y1 z1 = (Inr (), s1)"
  proof (cases "?k \<in> set (map position_key ?T)")
    case True
    show ?thesis
      unfolding teleport_again(1) [OF True] using True by (simp add: s1_def T1_def)
  next
    case False
    show ?thesis
      unfolding teleport_new [OF False] using False by (simp add: s1_def T1_def)
  qed
  have k1: "?k \<in> set (map position_key T1)"
    by (cases "?k \<in> set (map position_key ?T)") (simp_all add: T1_def position_key_def)
  have d1: "distinct (map position_key T1)"
    using pk by (cases "?k \<in> set (map position_key ?T)") (simp_all add: T1_def position_key_def)
  have k1': "?k \<in> set (map position_key (player_positions s1))"
    using k1 by (simp add: s1)
  have t2: "teleport s1 world_id player_id x2 y2 z2 = (Inr (), s2)"
    unfolding teleport_again(1) [OF k1'] by (simp add: s2_def T2_def s1)
  have ins: "insert_position (?new x2 y2 z2 (clock s (Suc (reads s)))) (player_positions s1) =
               Inl IntegrityError"
    by (rule teleport_again(2) [OF k1'])
  have "length (filter (\<lambda>r. position_key r = ?k) T1) = 1"
    by (rule filter_key_unique [OF d1 k1])
  then obtain r where "filter (\<lambda>r. position_key r = ?k) T1 = [r]"
    by (cases "filter (\<lambda>r. position_key r = ?k) T1") auto
  then have "filter (\<lambda>r. position_key r = ?k) T2 = [?new x2 y2 z2 (clock s (Suc (reads s)))]"
    by (simp add: T2_def filter_update_position)
  then have one: "filter (\<lambda>r. pp_player_id r = player_id \<and> pp_world_id r = world_id) T2 =
                    [?new x2 y2 z2 (clock s (Suc (reads s)))]"
    by (simp add: position_key_def)
  have "filter ?other T1 = filter ?other ?T"
  proof (cases "?k \<in> set (map position_key ?T)")
    case True
    then have "T1 = update_position player_id world_id x1 y1 z1 (clock s (reads s)) ?T"
      by (simp add: T1_def)
    then show ?thesis
      by (simp only: filter_others_update_position)
  next
    case False
    then have "T1 = ?T @ [?new x1 y1 z1 (clock s (reads s))]"
      by (simp add: T1_def)
    then show ?thesis
      by simp
  qed
  then have frame: "filter ?other T2 = filter ?other ?T"
    unfolding T2_def by (simp only: filter_others_update_position)
  have len: "length T2 = length T1"
    by (simp add: T2_def update_position_def)
  have d2: "distinct (map position_key T2)"
    using d1 by (simp add: T2_def)
  have e1: "s1 = s\<lparr>player_positions :=
                     (if ?k \<in> set (map position_key ?T)
                      then update_position player_id world_id x1 y1 z1 (clock s (reads s)) ?T
                      else ?T @ [?new x1 y1 z1 (clock s (reads s))]),
                   reads := Suc (reads s)\<rparr>"
    by (simp add: s1_def T1_def)
  have e2: "s2 = s1\<lparr>player_positions :=
                      update_position player_id world_id x2 y2 z2 (clock s (Suc (reads s)))
                        (player_positions s1),
                    reads := Suc (Suc (reads s))\<rparr>"
    by (simp add: s2_def T2_def s1)
  have p2: "player_positions s2 = T2"
    by (simp add: s2_def)
  show ?thesis
    apply (rule exI [of _ s1])
    apply (rule exI [of _ s2])
    unfolding p2 s1(1)
    using t1 e1 ins [unfolded s1(1)] t2 e2 [unfolded s1(1)] one frame len d2
    apply (intro conjI)
    apply assumption+
    done
qed

theorem teleport_twice_one_row_witness:
  "distinct (map position_key
      (player_positions ((new_builder (0::nat) sec_clock)\<lparr>player_positions := [bob_row]\<rparr>))) \<and>
   (\<exists>s1 s2.
      teleport ((new_builder (0::nat) sec_clock)\<lparr>player_positions := [bob_row]\<rparr>)
        ''world_0'' ''alice'' 1 2 3 = (Inr (), s1) \<and>
      player_positions s1 =
        [bob_row,
         \<lparr>pp_player_id = ''alice'', pp_world_id = ''world_0'', pp_x = 1, pp_y = 2, pp_z = 3,
          pp_teleported_at = sec_clock 0\<rparr>] \<and>
      insert_position
        \<lparr>pp_player_id = ''alice'', pp_world_id = ''world_0'', pp_x = 7, pp_y = 8, pp_z = 9,
         pp_teleported_at = sec_clock 1\<rparr> (player_positions s1) = Inl IntegrityError \<and>
      teleport s1 ''world_0'' ''alice'' 7 8 9 = (Inr (), s2) \<and>
      s2 = (new_builder (0::nat) sec_clock)
             \<lparr>player_positions :=
                [bob_row,
                 \<lparr>pp_player_id = ''alice'', pp_world_id = ''world_0'', pp_x = 7, pp_y = 8,
                  pp_z = 9, pp_teleported_at = sec_clock 1\<rparr>],
              reads := 2\<rparr>)"
proof -
  let ?S = "(new_builder (0::nat) sec_clock)\<lparr>player_positions := [bob_row]\<rparr>"
  have h: "distinct (map position_key (player_positions ?S))"
    by (simp add: new_builder_def)
  have S: "player_positions ?S = [bob_row]" "clock ?S = sec_clock" "reads ?S = 0"
    by (simp_all add: new_builder_def)
  have absent: "(''alice'', ''world_0'') \<notin> set (map position_key [bob_row])"
    by (simp add: position_key_def bob_row_def)
  from teleport_twice_one_row [OF h, of "''world_0''" "''alice''" 1 2 3 7 8 9]
  obtain s1 s2 where t1: "teleport ?S ''world_0'' ''alice'' 1 2 3 = (Inr (), s1)"
    and e1: "s1 = ?S\<lparr>player_positions :=
                     [bob_row,
                      \<lparr>pp_player_id = ''alice'', pp_world_id = ''world_0'', pp_x = 1, pp_y = 2,
                       pp_z = 3, pp_teleported_at = sec_clock 0\<rparr>],
                   reads := Suc 0\<rparr>"
    and ins: "insert_position
        \<lparr>pp_player_id = ''alice'', pp_world_id = ''world_0'', pp_x = 7, pp_y = 8, pp_z = 9,
         pp_teleported_at = sec_clock (Suc 0)\<rparr> (player_positions s1) = Inl IntegrityError"
    and t2: "teleport s1 ''world_0'' ''alice'' 7 8 9 = (Inr (), s2)"
    and e2: "s2 = s1\<lparr>player_positions :=
                      update_position ''alice'' ''world_0'' 7 8 9 (sec_clock (Suc 0))
                        (player_positions s1),
                    reads := Suc (Suc 0)\<rparr>"
    unfolding S if_not_P [OF absent] append.simps by blast
  have p1: "player_positions s1 =
        [bob_row,
         \<lparr>pp_player_id = ''alice'', pp_world_id = ''world_0'', pp_x = 1, pp_y = 2, pp_z = 3,
          pp_teleported_at = sec_clock 0\<rparr>]"
    by (simp add: e1)
  have s2: "s2 = (new_builder (0::nat) sec_clock)
             \<lparr>player_positions :=
                [bob_row,
                 \<lparr>pp_player_id = ''alice'', pp_world_id = ''world_0'', pp_x = 7, pp_y = 8,
                  pp_z = 9, pp_teleported_at = sec_clock 1\<rparr>],
              reads := 2\<rparr>"
    unfolding e2 p1 by (simp add: e1 update_position_def bob_row_def numeral_2_eq_2)
  show ?thesis
    using h t1 p1 ins t2 s2 by auto
qed

end
